theory Spec2Isabelle
  imports Main
begin

section \<open>Data model\<close>

text \<open>
  The backend keeps three DynamoDB tables (connections, games, game states) and talks to
  its clients through a WebSocket client. The TypeScript interfaces become records; a
  field that two interfaces share gets a prefix in all but one of them. Tiles are strings.
  The numeric attributes (\<open>currentIndex\<close>, \<open>dealer\<close>, \<open>currentWind\<close>, \<open>currentTurn\<close>,
  \<open>interactionCount\<close>) are counters: every value the code writes is \<open>0\<close>, a wall cursor,
  an increment by one or a remainder of a division by four, so they are natural numbers and
  JavaScript's \<open>%\<close> is \<open>mod\<close> on them.
\<close>

record UserHand =
  hand_connectionId :: string
  hand :: "string list"
  playedTiles :: "string list"

record SelfPlayedTile =
  self_connectionId :: string
  self_playedTiles :: "string list"

record PlayedTile =
  pt_connectionId :: string
  pt_playedTiles :: "string list"
  meldType :: string
  skipInteraction :: bool

record GameState =
  gameId :: string
  wall :: "string list"
  hands :: "UserHand list"
  currentIndex :: nat
  dealer :: nat
  currentWind :: nat
  currentTurn :: nat
  interactionCount :: nat
  playedTileInteractions :: "PlayedTile list"

text \<open>A row of the connections table: \<open>username\<close> and \<open>gameId\<close> are optional attributes.\<close>

record User =
  connectionId :: string
  username :: "string option"
  user_gameId :: "string option"

text \<open>
  Modelled from the spec: the \<open>Game\<close> interface (models/Game) is not among the sources.
  The fields are those of the spec's data model that the create-game path touches.
\<close>

record Game =
  game_gameId :: string
  gameName :: string
  gameType :: string
  gameVersion :: string
  creatorConnectionId :: string
  users :: "User list"

datatype GameStatesEnum = CREATED | DELETED

datatype WebSocketActionsEnum = CREATE_GAME | GAME_UPDATE | GAME_START | UPDATE_GAME_STATE

text \<open>
  What a function can throw: the store's rejection of a conditional update, a JavaScript
  \<open>TypeError\<close> (a property read on \<open>undefined\<close>), and an \<open>Error\<close> thrown by the code
  with its message. \<open>IncompleteItem\<close> stands for the one store outcome the typed tables
  cannot hold, see \<open>updateGameState\<close>.
\<close>

datatype error = ConditionalCheckFailed | TypeError | Error string | IncompleteItem

text \<open>What goes with a status or a failed response: a fixed message or the value caught.\<close>

datatype detail = Message string | Thrown error

text \<open>
  The payloads of the responses that the modelled functions send. In the source
  \<open>success\<close> and \<open>error\<close> are further keys of the payload object; here they are fields of
  the response.
\<close>

datatype payload =
    EmptyPayload
  | CreateGamePayload Game
  | GameUpdatePayload Game GameStatesEnum
  | GameStartPayload "string list" "SelfPlayedTile list" nat
  | UpdateGameStatePayload nat nat

record wsResponse =
  action :: WebSocketActionsEnum
  payload :: payload
  success :: "bool option"
  error :: "detail option"

record LambdaResponse =
  statusCode :: nat
  body :: detail

datatype tableName = CONNECTIONS_TABLE | GAMES_TABLE | GAME_STATE_TABLE

text \<open>
  Effects, in the order in which the code starts them: a write to a table row, a message
  handed to \<open>ws.send\<close> for a connection, and a \<open>sleep\<close> of so many milliseconds.
\<close>

datatype event =
    Wrote tableName string
  | Sent string wsResponse
  | Slept nat

text \<open>
  The world a handler runs in. The connections table is the list of its rows, each found
  by its \<open>connectionId\<close>, because \<open>getAllConnections\<close> scans it and the order of the scan
  decides the order of the sends; the other two tables are only read by key.
\<close>

record world =
  connections :: "User list"
  games :: "string \<rightharpoonup> Game"
  gameStates :: "string \<rightharpoonup> GameState"
  trace :: "event list"

text \<open>An awaited call either throws (\<open>Inl\<close>) or returns (\<open>Inr\<close>), and leaves a world.\<close>

type_synonym 'a result = "(error + 'a) \<times> world"

definition DEFAULT_WALL_LENGTH :: nat where
  "DEFAULT_WALL_LENGTH = 144"

text \<open>
  Modelled from the spec: \<open>DEFAULT_MAX_USERS_IN_GAME\<close> is imported from utils/constants,
  which is not among the sources; the spec's data model gives it as 4. \<open>changeWind\<close> and
  \<open>changeDealer\<close> take the bound of their condition expression as first argument, so
  that the condition can be stated for any bound; every caller passes this constant.
\<close>

definition DEFAULT_MAX_USERS_IN_GAME :: nat where
  "DEFAULT_MAX_USERS_IN_GAME = 4"

text \<open>
  The result of \<open>new HongKongWall()\<close> followed by \<open>generateHongKongMahjongHands\<close>: a
  shuffled wall, the hands dealt from it and the cursor after dealing. The shuffle is
  random and both functions are outside the sources, so the deal is an argument of the
  functions that start a round.
\<close>

record Deal =
  dealtWall :: "string list"
  dealtHands :: "UserHand list"
  dealtIndex :: nat

section \<open>The game state table\<close>

text \<open>
  \<open>DB.update(param).promise()\<close> followed by \<open>parseDynamoDBAttribute\<close>, for the game state
  table: \<open>cond\<close> is the condition expression, evaluated on the stored item or on no item,
  \<open>upd\<close> the update expression. A condition that does not hold rejects the promise with
  the store's conditional-check failure and writes nothing. Otherwise the item is
  rewritten and, \<open>ReturnValues\<close> being \<open>ALL_NEW\<close>, returned whole. An update of an absent
  key whose condition holds would create an item with the key and the updated attributes
  only; no \<open>GameState\<close> record is such an item, so that case is reported as
  \<open>IncompleteItem\<close>. Of the functions below only \<open>incrementCurrentTileIndex\<close>, called on
  its own for an absent game, reaches it: the others test for the item in their condition
  or read it first.
\<close>

definition updateGameState ::
  "string \<Rightarrow> (GameState option \<Rightarrow> bool) \<Rightarrow> (GameState \<Rightarrow> GameState) \<Rightarrow> world
    \<Rightarrow> GameState option result" where
  "updateGameState key cond upd w =
     (if \<not> cond (gameStates w key) then (Inl ConditionalCheckFailed, w)
      else case gameStates w key of
        None \<Rightarrow> (Inl IncompleteItem, w)
      | Some item \<Rightarrow>
          (Inr (Some (upd item)),
           w\<lparr>gameStates := (gameStates w)(key \<mapsto> upd item),
             trace := trace w @ [Wrote GAME_STATE_TABLE key]\<rparr>))"

text \<open>
  \<open>initGameState\<close>: an unconditional put of a fresh state. The wall and the hands are the
  deal's; the object put is the object returned.
\<close>

definition initGameState :: "string \<Rightarrow> Deal \<Rightarrow> world \<Rightarrow> GameState \<times> world" where
  "initGameState gid deal w =
     (let initialGame = \<lparr>gameId = gid, wall = dealtWall deal, hands = dealtHands deal,
            currentIndex = dealtIndex deal, dealer = 0, currentWind = 0, currentTurn = 0,
            interactionCount = 0, playedTileInteractions = []\<rparr>
      in (initialGame,
          w\<lparr>gameStates := (gameStates w)(gid \<mapsto> initialGame),
            trace := trace w @ [Wrote GAME_STATE_TABLE gid]\<rparr>))"

text \<open>
  \<open>getGameStateByGameId\<close>: a read by key. The projection of the source only drops
  attributes; every caller below reads attributes that its projection keeps.
\<close>

definition getGameStateByGameId :: "string \<Rightarrow> world \<Rightarrow> GameState option" where
  "getGameStateByGameId gid w = gameStates w gid"

definition incrementCurrentTileIndex :: "string \<Rightarrow> world \<Rightarrow> GameState option result" where
  "incrementCurrentTileIndex gid w =
     updateGameState gid (\<lambda>_. True) (\<lambda>g. g\<lparr>currentIndex := currentIndex g + 1\<rparr>) w"

text \<open>
  \<open>drawTile\<close>. Destructuring the state of an absent game throws a \<open>TypeError\<close>. The tile
  is \<open>Some\<close> string, or \<open>None\<close> for JavaScript's \<open>undefined\<close>, which an index past the end
  of the array reads.
\<close>

definition drawTile :: "string \<Rightarrow> world \<Rightarrow> string option result" where
  "drawTile gid w =
     (case getGameStateByGameId gid w of
        None \<Rightarrow> (Inl TypeError, w)
      | Some gs \<Rightarrow>
          if currentIndex gs \<ge> DEFAULT_WALL_LENGTH then (Inr (Some ''''), w)
          else
            let tileDrawn =
                  (if currentIndex gs < length (wall gs) then Some (wall gs ! currentIndex gs)
                   else None)
            in (case incrementCurrentTileIndex gid w of
                  (Inl e, w') \<Rightarrow> (Inl e, w')
                | (Inr _, w') \<Rightarrow> (Inr tileDrawn, w')))"

definition changeWind :: "nat \<Rightarrow> string \<Rightarrow> world \<Rightarrow> GameState option result" where
  "changeWind maxUserCount gid w =
     (case getGameStateByGameId gid w of
        None \<Rightarrow> (Inl (Error ''changeWind: game state not found''), w)
      | Some currentGameState \<Rightarrow>
          let nextWindNum = (currentWind currentGameState + 1) mod 4
          in updateGameState gid (\<lambda>_. nextWindNum < maxUserCount)
               (\<lambda>g. g\<lparr>currentWind := nextWindNum\<rparr>) w)"

definition changeDealer :: "nat \<Rightarrow> string \<Rightarrow> world \<Rightarrow> GameState option result" where
  "changeDealer maxUserCount gid w =
     (case getGameStateByGameId gid w of
        None \<Rightarrow> (Inl (Error ''changeDealer: game state not found''), w)
      | Some currentGameState \<Rightarrow>
          let nextDealerIndex = (dealer currentGameState + 1) mod 4
          in (case (if nextDealerIndex = 0 then changeWind maxUserCount gid w
                    else (Inr None, w)) of
                (Inl e, w') \<Rightarrow> (Inl e, w')
              | (Inr _, w') \<Rightarrow>
                  updateGameState gid (\<lambda>_. nextDealerIndex < maxUserCount)
                    (\<lambda>g. g\<lparr>dealer := nextDealerIndex\<rparr>) w'))"

definition setPlayedTileInteraction ::
  "string \<Rightarrow> string \<Rightarrow> string list \<Rightarrow> string \<Rightarrow> bool \<Rightarrow> world \<Rightarrow> GameState option result" where
  "setPlayedTileInteraction gid cid tiles meld skip w =
     (let playedTileVal = \<lparr>pt_connectionId = cid, pt_playedTiles = tiles, meldType = meld,
            skipInteraction = skip\<rparr>
      in updateGameState gid
           (\<lambda>item. case item of
                      None \<Rightarrow> False
                    | Some g \<Rightarrow> interactionCount g < DEFAULT_MAX_USERS_IN_GAME)
           (\<lambda>g. g\<lparr>interactionCount := interactionCount g + 1,
                  playedTileInteractions := playedTileInteractions g @ [playedTileVal]\<rparr>) w)"

definition resetPlayedTileInteraction :: "string \<Rightarrow> world \<Rightarrow> GameState option result" where
  "resetPlayedTileInteraction gid w =
     updateGameState gid (\<lambda>item. item \<noteq> None)
       (\<lambda>g. g\<lparr>interactionCount := 0, playedTileInteractions := []\<rparr>) w"

text \<open>
  \<open>startNewGameRound\<close>: the deal stands for the new wall and the hands generated for the
  connection ids. The state returned is that of the last update made.
\<close>

definition startNewGameRound ::
  "string \<Rightarrow> Deal \<Rightarrow> bool \<Rightarrow> world \<Rightarrow> GameState option result" where
  "startNewGameRound gid deal isDealerChanged w =
     (case updateGameState gid (\<lambda>item. item \<noteq> None)
             (\<lambda>g. g\<lparr>currentIndex := dealtIndex deal, wall := dealtWall deal,
                    hands := dealtHands deal, interactionCount := 0,
                    playedTileInteractions := []\<rparr>) w of
        (Inl e, w') \<Rightarrow> (Inl e, w')
      | (Inr updatedGameState, w') \<Rightarrow>
          if isDealerChanged then changeDealer DEFAULT_MAX_USERS_IN_GAME gid w'
          else (Inr updatedGameState, w'))"

section \<open>Broadcasts\<close>

text \<open>
  \<open>ws.send(message, connectionId)\<close>: the message is handed over for that connection.
  \<open>Promise.all\<close> over a mapped list starts the sends in the order of the list.
\<close>

definition send :: "wsResponse \<Rightarrow> string \<Rightarrow> world \<Rightarrow> world" where
  "send msg cid w = w\<lparr>trace := trace w @ [Sent cid msg]\<rparr>"

definition sendAll :: "wsResponse \<Rightarrow> string list \<Rightarrow> world \<Rightarrow> world" where
  "sendAll msg cids w = foldl (\<lambda>w' cid. send msg cid w') w cids"

definition sleep :: "nat \<Rightarrow> world \<Rightarrow> world" where
  "sleep ms w = w\<lparr>trace := trace w @ [Slept ms]\<rparr>"

definition getConnectionIdsFromUsers :: "User list \<Rightarrow> string list" where
  "getConnectionIdsFromUsers usersList = map connectionId usersList"

definition getConnectionIdsExceptCaller :: "string \<Rightarrow> string list \<Rightarrow> string list" where
  "getConnectionIdsExceptCaller callerConnectionId connectionIds =
     filter (\<lambda>otherConnectionId. otherConnectionId \<noteq> callerConnectionId) connectionIds"

text \<open>
  The response builders of websocket/createWSResponse, as its tests under the sources
  show them: an action and the payload given.
\<close>

definition createWSResponse :: "WebSocketActionsEnum \<Rightarrow> payload \<Rightarrow> wsResponse" where
  "createWSResponse a p = \<lparr>action = a, payload = p, success = None, error = None\<rparr>"

definition createGameStartResponse ::
  "string list \<Rightarrow> SelfPlayedTile list \<Rightarrow> nat \<Rightarrow> wsResponse" where
  "createGameStartResponse tiles selfPlayedTiles idx =
     createWSResponse GAME_START (GameStartPayload tiles selfPlayedTiles idx)"

definition createUpdateGameStateResponse :: "nat \<Rightarrow> nat \<Rightarrow> wsResponse" where
  "createUpdateGameStateResponse d wind =
     createWSResponse UPDATE_GAME_STATE (UpdateGameStatePayload d wind)"

definition createGameResponse :: "Game option \<Rightarrow> wsResponse" where
  "createGameResponse g =
     createWSResponse CREATE_GAME (case g of None \<Rightarrow> EmptyPayload | Some x \<Rightarrow> CreateGamePayload x)"

definition createGameUpdateResponse :: "Game \<Rightarrow> GameStatesEnum \<Rightarrow> wsResponse" where
  "createGameUpdateResponse g st = createWSResponse GAME_UPDATE (GameUpdatePayload g st)"

definition successWebSocketResponse :: "wsResponse \<Rightarrow> wsResponse" where
  "successWebSocketResponse r = r\<lparr>success := Some True\<rparr>"

definition failedWebSocketResponse :: "wsResponse \<Rightarrow> detail \<Rightarrow> wsResponse" where
  "failedWebSocketResponse r e = r\<lparr>success := Some False, error := Some e\<rparr>"

definition response :: "nat \<Rightarrow> detail \<Rightarrow> LambdaResponse" where
  "response code b = \<lparr>statusCode = code, body = b\<rparr>"

text \<open>
  Modelled from the spec: \<open>getHandByConnectionId\<close> (dynamodb/dbHelper) is not among the
  sources. It is the entry of \<open>hands\<close> that belongs to the connection, the recipient's own
  hand; \<open>None\<close> is JavaScript's \<open>undefined\<close> when there is no such entry.
\<close>

definition getHandByConnectionId :: "UserHand list \<Rightarrow> string \<Rightarrow> UserHand option" where
  "getHandByConnectionId hs cid = find (\<lambda>h. hand_connectionId h = cid) hs"

text \<open>
  The callback that \<open>broadcastGameStart\<close> maps over the connection ids. Destructuring
  the hand of a connection that has none throws; the sends started before stay started.
\<close>

fun sendGameStart ::
  "UserHand list \<Rightarrow> SelfPlayedTile list \<Rightarrow> nat \<Rightarrow> string list \<Rightarrow> world \<Rightarrow> unit result" where
  "sendGameStart hs selfPlayedTiles idx [] w = (Inr (), w)"
| "sendGameStart hs selfPlayedTiles idx (cid # cids) w =
     (case getHandByConnectionId hs cid of
        None \<Rightarrow> (Inl TypeError, w)
      | Some h \<Rightarrow>
          sendGameStart hs selfPlayedTiles idx cids
            (send (createGameStartResponse (hand h) selfPlayedTiles idx) cid w))"

text \<open>The played tiles of every hand, as \<open>broadcastGameStart\<close> collects them for all recipients.\<close>

definition allSelfPlayedTilesAtStart :: "UserHand list \<Rightarrow> SelfPlayedTile list" where
  "allSelfPlayedTilesAtStart hs =
     map (\<lambda>h. \<lparr>self_connectionId = hand_connectionId h, self_playedTiles = playedTiles h\<rparr>) hs"

definition broadcastGameStart ::
  "Deal \<Rightarrow> string \<Rightarrow> string list \<Rightarrow> bool \<Rightarrow> GameState option \<Rightarrow> world \<Rightarrow> unit result" where
  "broadcastGameStart deal gid connectionIds startNewGame gameState w =
     (case (if startNewGame then
              (let (newGameState, w') = initGameState gid deal w
               in (Inr (hands newGameState, currentIndex newGameState), w'))
            else (case gameState of
                    Some gs \<Rightarrow> (Inr (hands gs, currentIndex gs), w)
                  | None \<Rightarrow>
                      (Inl (Error ''broadcastGameStart: Failed to start a new game, please double check params passed in''), w))) of
        (Inl e, w') \<Rightarrow> (Inl e, w')
      | (Inr (hs, idx), w') \<Rightarrow>
          sendGameStart hs (allSelfPlayedTilesAtStart hs) idx connectionIds w')"

definition broadcastUpdateGameState :: "string list \<Rightarrow> nat \<Rightarrow> nat \<Rightarrow> world \<Rightarrow> world" where
  "broadcastUpdateGameState connectionIds d wind w =
     sendAll (createUpdateGameStateResponse d wind) connectionIds w"

definition broadcastGameReset :: "Deal \<Rightarrow> string list \<Rightarrow> GameState \<Rightarrow> world \<Rightarrow> unit result" where
  "broadcastGameReset deal connectionIds gameState w =
     broadcastGameStart deal '''' connectionIds False (Some gameState) w"

text \<open>
  \<open>startNewRoundAndSendUpdates\<close>. The argument
  \<open>users[dealer].connectionId !== connectionId\<close> is evaluated before the call of
  \<open>startNewGameRound\<close>; with \<open>dealer\<close> past the end of \<open>users\<close> it throws a
  \<open>TypeError\<close>. What \<open>startNewGameRound\<close> throws propagates. \<open>Inr None\<close> is the
  function's \<open>return undefined\<close>.
\<close>

definition startNewRoundAndSendUpdates ::
  "Deal \<Rightarrow> string \<Rightarrow> string \<Rightarrow> User list \<Rightarrow> nat \<Rightarrow> world \<Rightarrow> LambdaResponse option result" where
  "startNewRoundAndSendUpdates deal gid cid usrs d w =
     (let connectionIds = getConnectionIdsFromUsers usrs
      in if d \<ge> length usrs then (Inl TypeError, w)
         else (case startNewGameRound gid deal (connectionId (usrs ! d) \<noteq> cid) w of
                 (Inl e, w') \<Rightarrow> (Inl e, w')
               | (Inr None, w') \<Rightarrow>
                   (Inr (Some (response 400 (Message ''Cannot start new game round''))), w')
               | (Inr (Some updatedGameState), w') \<Rightarrow>
                   (let w1 = broadcastUpdateGameState connectionIds (dealer updatedGameState)
                               (currentWind updatedGameState) w';
                        w2 = sleep 5000 w1
                    in (case broadcastGameReset deal connectionIds updatedGameState w2 of
                          (Inl e, w3) \<Rightarrow> (Inl e, w3)
                        | (Inr _, w3) \<Rightarrow> (Inr None, w3)))))"

section \<open>The connections table\<close>

definition getUserByConnectionId :: "string \<Rightarrow> world \<Rightarrow> User option" where
  "getUserByConnectionId cid w = find (\<lambda>u. connectionId u = cid) (connections w)"

text \<open>
  \<open>documentClient.update(param).promise()\<close> on the connections table, with the result's
  \<open>Attributes\<close>. A condition that does not hold rejects the promise and writes nothing.
  The other attributes of a row being optional, an update of an absent key whose
  condition holds creates the row.
\<close>

definition updateConnection ::
  "string \<Rightarrow> (User option \<Rightarrow> bool) \<Rightarrow> (User \<Rightarrow> User) \<Rightarrow> world \<Rightarrow> User option result" where
  "updateConnection key cond upd w =
     (let item = getUserByConnectionId key w
      in if \<not> cond item then (Inl ConditionalCheckFailed, w)
         else (case item of
                 None \<Rightarrow>
                   (let created = upd \<lparr>connectionId = key, username = None, user_gameId = None\<rparr>
                    in (Inr (Some created),
                        w\<lparr>connections := connections w @ [created],
                          trace := trace w @ [Wrote CONNECTIONS_TABLE key]\<rparr>))
               | Some u \<Rightarrow>
                   (Inr (Some (upd u)),
                    w\<lparr>connections :=
                        map (\<lambda>x. if connectionId x = key then upd x else x) (connections w),
                      trace := trace w @ [Wrote CONNECTIONS_TABLE key]\<rparr>)))"

text \<open>
  \<open>setUsername\<close>. The condition compares the row's \<open>connectionId\<close> with the key, which
  fails on an absent row, and the new name with the empty string. \<open>Inr None\<close> is the
  \<open>return undefined\<close> for a result without \<open>Attributes\<close>.
\<close>

definition setUsername :: "string \<Rightarrow> string \<Rightarrow> world \<Rightarrow> User option result" where
  "setUsername cid name w =
     (case updateConnection cid
             (\<lambda>item. (case item of None \<Rightarrow> False | Some u \<Rightarrow> connectionId u = cid) \<and> name \<noteq> '''')
             (\<lambda>u. u\<lparr>username := Some name\<rparr>) w of
        (Inl e, w') \<Rightarrow> (Inl e, w')
      | (Inr Attributes, w') \<Rightarrow>
          (case Attributes of None \<Rightarrow> (Inr None, w') | Some a \<Rightarrow> (Inr (Some a), w')))"

definition setGameIdForUser :: "string \<Rightarrow> string \<Rightarrow> world \<Rightarrow> User option result" where
  "setGameIdForUser cid gid w =
     (case updateConnection cid
             (\<lambda>item. case item of
                        None \<Rightarrow> False
                      | Some u \<Rightarrow> connectionId u = cid \<and> user_gameId u = None)
             (\<lambda>u. u\<lparr>user_gameId := Some gid\<rparr>) w of
        (Inl e, w') \<Rightarrow> (Inl e, w')
      | (Inr Attributes, w') \<Rightarrow>
          (case Attributes of None \<Rightarrow> (Inr None, w') | Some a \<Rightarrow> (Inr (Some a), w')))"

text \<open>\<open>getAllConnections\<close>: a scan that keeps \<open>connectionId\<close> and \<open>username\<close>.\<close>

definition getAllConnections :: "world \<Rightarrow> User list" where
  "getAllConnections w = map (\<lambda>u. u\<lparr>user_gameId := None\<rparr>) (connections w)"

section \<open>Creating a game\<close>

text \<open>
  Modelled from the spec: \<open>createGame\<close> (dynamodb/gameDBService) is not among the sources.
  By the spec it fails if the creator already has an active game reference, that is if the
  \<open>gameId\<close> attribute of the creator's connection is set; otherwise it stores and returns
  a new game with the creator as its first user. The identifier of the new game is an
  argument.
\<close>

definition createGame ::
  "string \<Rightarrow> string \<Rightarrow> string \<Rightarrow> string \<Rightarrow> string \<Rightarrow> world \<Rightarrow> Game result" where
  "createGame creator name type version newGameId w =
     (let creatorRow = getUserByConnectionId creator w
      in if (case creatorRow of None \<Rightarrow> False | Some u \<Rightarrow> user_gameId u \<noteq> None)
         then (Inl (Error ''createGame: creator already has a game''), w)
         else (let game = \<lparr>game_gameId = newGameId, gameName = name, gameType = type,
                            gameVersion = version, creatorConnectionId = creator,
                            users = [\<lparr>connectionId = creator,
                                      username = (case creatorRow of None \<Rightarrow> None
                                                  | Some u \<Rightarrow> username u),
                                      user_gameId = None\<rparr>]\<rparr>
               in (Inr game,
                   w\<lparr>games := (games w)(newGameId \<mapsto> game),
                     trace := trace w @ [Wrote GAMES_TABLE newGameId]\<rparr>)))"

text \<open>
  Modelled from the spec: \<open>getGameByGameId\<close> (dynamodb/gameDBService) is not among the
  sources; a read by key that returns an absent value for an absent game.
\<close>

definition getGameByGameId :: "string \<Rightarrow> world \<Rightarrow> Game option" where
  "getGameByGameId gid w = games w gid"

definition broadcastGameUpdate ::
  "string \<Rightarrow> GameStatesEnum \<Rightarrow> string \<Rightarrow> string list \<Rightarrow> bool \<Rightarrow> world \<Rightarrow> Game option \<times> world" where
  "broadcastGameUpdate gid st callerConnectionId allConnectionIds sendToAll w =
     (case getGameByGameId gid w of
        None \<Rightarrow> (None, w)
      | Some updatedGame \<Rightarrow>
          (let wsResponse = createGameUpdateResponse updatedGame st
           in (Some updatedGame,
               if sendToAll then sendAll wsResponse allConnectionIds w
               else sendAll wsResponse
                      (getConnectionIdsExceptCaller callerConnectionId allConnectionIds) w)))"

text \<open>
  The \<open>try\<close> block of the handler of functions/lobby/onCreateGame: \<open>game\<close> is the
  \<open>game\<close> key of the payload, absent or an object whose name, type and version are read.
\<close>

definition handler_try :: "string \<Rightarrow> Game option \<Rightarrow> string \<Rightarrow> world \<Rightarrow> LambdaResponse result" where
  "handler_try cid game newGameId w =
     (case game of
        None \<Rightarrow>
          (Inr (response 400 (Message ''Games attribute cannot be empty'')),
           send (failedWebSocketResponse (createGameResponse None)
                   (Message ''Games attribute cannot be empty'')) cid w)
      | Some g \<Rightarrow>
          (case createGame cid (gameName g) (gameType g) (gameVersion g) newGameId w of
             (Inl e, w1) \<Rightarrow> (Inl e, w1)
           | (Inr returnedGameObj, w1) \<Rightarrow>
               (case setGameIdForUser cid (game_gameId returnedGameObj) w1 of
                  (Inl e, w2) \<Rightarrow> (Inl e, w2)
                | (Inr _, w2) \<Rightarrow>
                    (let w3 = send (successWebSocketResponse
                                      (createGameResponse (Some returnedGameObj))) cid w2;
                         gid = game_gameId returnedGameObj;
                         connectionIds = getConnectionIdsFromUsers (getAllConnections w3);
                         w4 = (if gid \<noteq> ''''
                               then snd (broadcastGameUpdate gid CREATED cid connectionIds False w3)
                               else w3)
                     in (Inr (response 200 (Message ''Game created successfully'')), w4)))))"

text \<open>The handler: what the \<open>try\<close> block throws is caught, sent to the caller and returned.\<close>

definition handler :: "string \<Rightarrow> Game option \<Rightarrow> string \<Rightarrow> world \<Rightarrow> LambdaResponse \<times> world" where
  "handler cid game newGameId w =
     (case handler_try cid game newGameId w of
        (Inr r, w') \<Rightarrow> (r, w')
      | (Inl err, w') \<Rightarrow>
          (response 500 (Thrown err),
           send (failedWebSocketResponse (createGameResponse None) (Thrown err)) cid w'))"

section \<open>Notions used in the statements\<close>

text \<open>The interaction count of a state agrees with its list of interactions.\<close>

definition countMatchesList :: "GameState \<Rightarrow> bool" where
  "countMatchesList gs \<longleftrightarrow> interactionCount gs = length (playedTileInteractions gs)"

text \<open>
  A run of calls of \<open>setPlayedTileInteraction\<close> for one game, one after the other, each
  given by its connection id, played tiles, meld and skip flag; the run stops at the first
  call that throws.
\<close>

fun setPlayedTileInteractions ::
  "string \<Rightarrow> (string \<times> string list \<times> string \<times> bool) list \<Rightarrow> world \<Rightarrow> unit result" where
  "setPlayedTileInteractions gid [] w = (Inr (), w)"
| "setPlayedTileInteractions gid ((cid, tiles, meld, skip) # calls) w =
     (case setPlayedTileInteraction gid cid tiles meld skip w of
        (Inl e, w') \<Rightarrow> (Inl e, w')
      | (Inr _, w') \<Rightarrow> setPlayedTileInteractions gid calls w')"

text \<open>What a connection has been sent, in order.\<close>

definition received :: "string \<Rightarrow> world \<Rightarrow> wsResponse list" where
  "received cid w =
     concat (map (\<lambda>e. case e of Sent c msg \<Rightarrow> (if c = cid then [msg] else []) | _ \<Rightarrow> [])
       (trace w))"

text \<open>
  Two lists of hands that differ at most in the concealed tiles of players other than
  \<open>cid\<close>: entry by entry the same connection and the same played tiles, and the same
  concealed tiles where the entry is that of \<open>cid\<close>.
\<close>

definition sameViewFor :: "string \<Rightarrow> UserHand list \<Rightarrow> UserHand list \<Rightarrow> bool" where
  "sameViewFor cid hs1 hs2 \<longleftrightarrow>
     list_all2 (\<lambda>h1 h2. hand_connectionId h1 = hand_connectionId h2
                  \<and> playedTiles h1 = playedTiles h2
                  \<and> (hand_connectionId h1 = cid \<longrightarrow> hand h1 = hand h2)) hs1 hs2"

subsection \<open>A small table to run the functions on\<close>

definition exampleHands :: "UserHand list" where
  "exampleHands =
     [\<lparr>hand_connectionId = ''c1'', hand = [''1_DOT'', ''2_DOT''], playedTiles = [''1_FLOWER'']\<rparr>,
      \<lparr>hand_connectionId = ''c2'', hand = [''3_BAMBOO'', ''EAST''], playedTiles = []\<rparr>]"

definition exampleWall :: "string list" where
  "exampleWall = replicate 52 ''1_DOT'' @ ''7_BAMBOO'' # replicate 91 ''2_DOT''"

definition exampleDeal :: Deal where
  "exampleDeal = \<lparr>dealtWall = exampleWall, dealtHands = exampleHands, dealtIndex = 52\<rparr>"

definition exampleInteraction :: PlayedTile where
  "exampleInteraction =
     \<lparr>pt_connectionId = ''c2'', pt_playedTiles = [''1_DOT''], meldType = ''TRIPLET'',
      skipInteraction = False\<rparr>"

text \<open>A state of game \<open>g1\<close> with the given wall cursor, dealer and number of interactions.\<close>

definition exampleState :: "nat \<Rightarrow> nat \<Rightarrow> nat \<Rightarrow> GameState" where
  "exampleState idx d n =
     \<lparr>gameId = ''g1'', wall = exampleWall, hands = exampleHands, currentIndex = idx,
      dealer = d, currentWind = 1, currentTurn = 0, interactionCount = n,
      playedTileInteractions = replicate n exampleInteraction\<rparr>"

definition exampleUsers :: "User list" where
  "exampleUsers =
     [\<lparr>connectionId = ''c1'', username = Some ''ann'', user_gameId = Some ''g1''\<rparr>,
      \<lparr>connectionId = ''c2'', username = Some ''bob'', user_gameId = None\<rparr>]"

definition exampleWorld :: "GameState \<Rightarrow> world" where
  "exampleWorld gs =
     \<lparr>connections = exampleUsers, games = Map.empty, gameStates = [''g1'' \<mapsto> gs], trace = []\<rparr>"

section \<open>Auxiliary facts\<close>

lemma exampleWall_length: "length exampleWall = 144"
  by (simp add: exampleWall_def)

lemma exampleWall_52: "exampleWall ! 52 = ''7_BAMBOO''"
  by (simp add: exampleWall_def nth_append)

lemma exampleWorld_stored: "gameStates (exampleWorld gs) ''g1'' = Some gs"
  by (simp add: exampleWorld_def)

lemma exampleState_fields:
  "wall (exampleState i d n) = exampleWall" "hands (exampleState i d n) = exampleHands"
  "currentIndex (exampleState i d n) = i" "dealer (exampleState i d n) = d"
  "currentWind (exampleState i d n) = 1" "interactionCount (exampleState i d n) = n"
  "playedTileInteractions (exampleState i d n) = replicate n exampleInteraction"
  by (simp_all add: exampleState_def)

lemma updateGameState_hit:
  "gameStates w key = Some item \<Longrightarrow> cond (Some item) \<Longrightarrow>
   updateGameState key cond upd w =
     (Inr (Some (upd item)),
      w\<lparr>gameStates := (gameStates w)(key \<mapsto> upd item),
        trace := trace w @ [Wrote GAME_STATE_TABLE key]\<rparr>)"
  by (simp add: updateGameState_def)

lemma updateGameState_returns:
  "updateGameState key cond upd w = (Inr r, w') \<Longrightarrow>
   \<exists>item. gameStates w key = Some item \<and> r = Some (upd item)
      \<and> gameStates w' key = Some (upd item)"
  by (auto simp: updateGameState_def split: if_splits option.splits)

lemma changeWind_hit:
  "gameStates w gid = Some gs \<Longrightarrow> (currentWind gs + 1) mod 4 < m \<Longrightarrow>
   changeWind m gid w =
     (Inr (Some (gs\<lparr>currentWind := (currentWind gs + 1) mod 4\<rparr>)),
      w\<lparr>gameStates := (gameStates w)(gid \<mapsto> gs\<lparr>currentWind := (currentWind gs + 1) mod 4\<rparr>),
        trace := trace w @ [Wrote GAME_STATE_TABLE gid]\<rparr>)"
  by (simp add: changeWind_def getGameStateByGameId_def updateGameState_def Let_def)

lemma changeWind_rejected:
  "gameStates w gid = Some gs \<Longrightarrow> \<not> (currentWind gs + 1) mod 4 < m \<Longrightarrow>
   changeWind m gid w = (Inl ConditionalCheckFailed, w)"
  by (simp add: changeWind_def getGameStateByGameId_def updateGameState_def Let_def)

lemma changeDealer_rejected:
  "gameStates w gid = Some gs \<Longrightarrow> \<not> (dealer gs + 1) mod 4 < m \<Longrightarrow>
   changeDealer m gid w = (Inl ConditionalCheckFailed, w)"
  by (cases "(dealer gs + 1) mod 4 = 0")
     (simp_all add: changeDealer_def getGameStateByGameId_def changeWind_rejected Let_def
        updateGameState_def)

lemma changeDealer_hit:
  assumes "gameStates w gid = Some gs" and "(dealer gs + 1) mod 4 < m"
    and "(currentWind gs + 1) mod 4 < m"
  shows "changeDealer m gid w =
     (let g1 = (if (dealer gs + 1) mod 4 = 0
                then gs\<lparr>currentWind := (currentWind gs + 1) mod 4\<rparr> else gs);
          g2 = g1\<lparr>dealer := (dealer gs + 1) mod 4\<rparr>
      in (Inr (Some g2),
          w\<lparr>gameStates := (gameStates w)(gid \<mapsto> g2),
            trace := trace w @
              (if (dealer gs + 1) mod 4 = 0 then [Wrote GAME_STATE_TABLE gid] else []) @
              [Wrote GAME_STATE_TABLE gid]\<rparr>))"
proof (cases "(dealer gs + 1) mod 4 = 0")
  case True
  then show ?thesis using assms
    by (simp add: changeDealer_def getGameStateByGameId_def changeWind_hit updateGameState_def
          Let_def)
next
  case False
  then show ?thesis using assms
    by (simp add: changeDealer_def getGameStateByGameId_def updateGameState_def Let_def)
qed

lemma bound_holds:
  "(currentWind gs + 1) mod 4 < DEFAULT_MAX_USERS_IN_GAME"
  "(dealer gs + 1) mod 4 < DEFAULT_MAX_USERS_IN_GAME"
  by (simp_all add: DEFAULT_MAX_USERS_IN_GAME_def)

lemma startNewGameRound_hit:
  assumes "gameStates w gid = Some gs"
  shows "startNewGameRound gid deal flag w =
     (let g0 = gs\<lparr>currentIndex := dealtIndex deal, wall := dealtWall deal,
                  hands := dealtHands deal, interactionCount := 0, playedTileInteractions := []\<rparr>;
          g1 = (if flag \<and> (dealer gs + 1) mod 4 = 0
                then g0\<lparr>currentWind := (currentWind gs + 1) mod 4\<rparr> else g0);
          g2 = (if flag then g1\<lparr>dealer := (dealer gs + 1) mod 4\<rparr> else g1)
      in (Inr (Some g2),
          w\<lparr>gameStates := (gameStates w)(gid \<mapsto> g2),
            trace := trace w @ Wrote GAME_STATE_TABLE gid #
              (if flag \<and> (dealer gs + 1) mod 4 = 0 then [Wrote GAME_STATE_TABLE gid] else []) @
              (if flag then [Wrote GAME_STATE_TABLE gid] else [])\<rparr>))"
proof -
  let ?g0 = "gs\<lparr>currentIndex := dealtIndex deal, wall := dealtWall deal,
                hands := dealtHands deal, interactionCount := 0, playedTileInteractions := []\<rparr>"
  let ?w0 = "w\<lparr>gameStates := (gameStates w)(gid \<mapsto> ?g0),
               trace := trace w @ [Wrote GAME_STATE_TABLE gid]\<rparr>"
  have s0: "gameStates ?w0 gid = Some ?g0" by simp
  have first: "startNewGameRound gid deal flag w =
      (if flag then changeDealer DEFAULT_MAX_USERS_IN_GAME gid ?w0 else (Inr (Some ?g0), ?w0))"
    using assms by (simp add: startNewGameRound_def updateGameState_def)
  show ?thesis
    unfolding first using changeDealer_hit [OF s0 bound_holds(2) bound_holds(1)]
    by (simp add: Let_def)
qed

lemma startNewGameRound_absent:
  "gameStates w gid = None \<Longrightarrow>
   startNewGameRound gid deal flag w = (Inl ConditionalCheckFailed, w)"
  by (simp add: startNewGameRound_def updateGameState_def)

lemma setPlayedTileInteraction_hit:
  assumes "gameStates w gid = Some gs" and "interactionCount gs < 4"
  shows "setPlayedTileInteraction gid cid tiles meld skip w =
     (Inr (Some (gs\<lparr>interactionCount := interactionCount gs + 1,
                    playedTileInteractions := playedTileInteractions gs @
                      [\<lparr>pt_connectionId = cid, pt_playedTiles = tiles, meldType = meld,
                        skipInteraction = skip\<rparr>]\<rparr>)),
      w\<lparr>gameStates := (gameStates w)(gid \<mapsto>
            gs\<lparr>interactionCount := interactionCount gs + 1,
               playedTileInteractions := playedTileInteractions gs @
                 [\<lparr>pt_connectionId = cid, pt_playedTiles = tiles, meldType = meld,
                   skipInteraction = skip\<rparr>]\<rparr>),
        trace := trace w @ [Wrote GAME_STATE_TABLE gid]\<rparr>)"
  using assms
  by (simp add: setPlayedTileInteraction_def updateGameState_def DEFAULT_MAX_USERS_IN_GAME_def
        Let_def)

lemma setPlayedTileInteractions_from:
  assumes "gameStates w gid = Some gs" and "countMatchesList gs"
    and "interactionCount gs + length calls \<le> 4"
  shows "\<exists>gs' w'. setPlayedTileInteractions gid calls w = (Inr (), w')
           \<and> gameStates w' gid = Some gs'
           \<and> interactionCount gs' = interactionCount gs + length calls
           \<and> length (playedTileInteractions gs') = interactionCount gs + length calls"
  using assms
proof (induction calls arbitrary: w gs)
  case Nil
  then show ?case by (simp add: countMatchesList_def)
next
  case (Cons call calls)
  obtain cid tiles meld skip where call: "call = (cid, tiles, meld, skip)"
    by (cases call) auto
  let ?g = "gs\<lparr>interactionCount := interactionCount gs + 1,
                playedTileInteractions := playedTileInteractions gs @
                  [\<lparr>pt_connectionId = cid, pt_playedTiles = tiles, meldType = meld,
                    skipInteraction = skip\<rparr>]\<rparr>"
  let ?w = "w\<lparr>gameStates := (gameStates w)(gid \<mapsto> ?g),
              trace := trace w @ [Wrote GAME_STATE_TABLE gid]\<rparr>"
  have step: "setPlayedTileInteraction gid cid tiles meld skip w = (Inr (Some ?g), ?w)"
    using Cons.prems setPlayedTileInteraction_hit [of w gid gs cid tiles meld skip] by simp
  have "gameStates ?w gid = Some ?g" "countMatchesList ?g"
       "interactionCount ?g + length calls \<le> 4"
    using Cons.prems by (simp_all add: countMatchesList_def)
  from Cons.IH [OF this] step call show ?case by simp
qed

lemma sendAll_trace:
  "sendAll msg cids w = w\<lparr>trace := trace w @ map (\<lambda>c. Sent c msg) cids\<rparr>"
  unfolding sendAll_def
  by (induction cids arbitrary: w) (simp_all add: send_def)

lemma getHand_found:
  "\<exists>h\<in>set hs. hand_connectionId h = c \<Longrightarrow>
   \<exists>h\<in>set hs. getHandByConnectionId hs c = Some h \<and> hand_connectionId h = c"
  by (cases "getHandByConnectionId hs c")
     (auto simp: getHandByConnectionId_def find_None_iff find_Some_iff)

lemma sendGameStart_covered:
  "\<forall>c\<in>set cids. \<exists>h\<in>set hs. hand_connectionId h = c \<Longrightarrow>
   sendGameStart hs sp idx cids w =
     (Inr (), w\<lparr>trace := trace w @
        map (\<lambda>c. Sent c (createGameStartResponse (hand (the (getHandByConnectionId hs c))) sp idx))
          cids\<rparr>)"
proof (induction cids arbitrary: w)
  case Nil
  then show ?case by simp
next
  case (Cons c cids)
  from Cons.prems obtain h where "getHandByConnectionId hs c = Some h"
    using getHand_found [of hs c] by auto
  with Cons show ?case by (simp add: send_def)
qed

lemma sameView_lookup:
  "sameViewFor cid hs1 hs2 \<Longrightarrow>
     (getHandByConnectionId hs1 c = None \<longleftrightarrow> getHandByConnectionId hs2 c = None)
   \<and> map_option hand (getHandByConnectionId hs1 cid) =
     map_option hand (getHandByConnectionId hs2 cid)"
  unfolding sameViewFor_def getHandByConnectionId_def
  by (induction hs1 hs2 rule: list_all2_induct) auto

lemma sameView_selfPlayed:
  "sameViewFor cid hs1 hs2 \<Longrightarrow> allSelfPlayedTilesAtStart hs1 = allSelfPlayedTilesAtStart hs2"
  unfolding sameViewFor_def allSelfPlayedTilesAtStart_def
  by (induction hs1 hs2 rule: list_all2_induct) auto

lemma received_send:
  "received cid (send msg c w) = received cid w @ (if c = cid then [msg] else [])"
  by (simp add: received_def send_def)

lemma sendGameStart_sameView:
  assumes "sameViewFor cid hs1 hs2" and "received cid w1 = received cid w2"
  shows "fst (sendGameStart hs1 sp idx cids w1) = fst (sendGameStart hs2 sp idx cids w2)
       \<and> received cid (snd (sendGameStart hs1 sp idx cids w1)) =
         received cid (snd (sendGameStart hs2 sp idx cids w2))"
  using assms(2)
proof (induction cids arbitrary: w1 w2)
  case Nil
  then show ?case by simp
next
  case (Cons c cids)
  show ?case
  proof (cases "getHandByConnectionId hs1 c")
    case None
    then have "getHandByConnectionId hs2 c = None"
      using sameView_lookup [OF assms(1), of c] by simp
    with None Cons.prems show ?thesis by simp
  next
    case (Some h1)
    then obtain h2 where h2: "getHandByConnectionId hs2 c = Some h2"
      using sameView_lookup [OF assms(1), of c] by (cases "getHandByConnectionId hs2 c") auto
    have own: "c = cid \<Longrightarrow> hand h1 = hand h2"
      using sameView_lookup [OF assms(1), of c] Some h2 by simp
    have "received cid (send (createGameStartResponse (hand h1) sp idx) c w1) =
          received cid (send (createGameStartResponse (hand h2) sp idx) c w2)"
      using Cons.prems own by (simp add: received_send)
    from Cons.IH [OF this] Some h2 show ?thesis by simp
  qed
qed

lemma getHand_distinct:
  "distinct (map hand_connectionId hs) \<Longrightarrow> h \<in> set hs \<Longrightarrow>
   getHandByConnectionId hs (hand_connectionId h) = Some h"
  unfolding getHandByConnectionId_def
  by (induction hs) auto

lemma startNewRoundAndSendUpdates_no_response:
  "fst (startNewRoundAndSendUpdates deal gid cid usrs d w) \<noteq> Inr (Some r)"
proof (cases "gameStates w gid")
  case None
  then show ?thesis
    by (simp add: startNewRoundAndSendUpdates_def startNewGameRound_absent Let_def)
next
  case (Some gs)
  show ?thesis
    using startNewGameRound_hit [OF Some, of deal "connectionId (usrs ! d) \<noteq> cid"]
    by (auto simp: startNewRoundAndSendUpdates_def Let_def split: prod.splits sum.splits)
qed

lemma updateConnection_rejected:
  "\<not> cond (getUserByConnectionId key w) \<Longrightarrow>
   updateConnection key cond upd w = (Inl ConditionalCheckFailed, w)"
  by (simp add: updateConnection_def)

lemma getUser_key: "getUserByConnectionId cid w = Some u \<Longrightarrow> connectionId u = cid"
  by (auto simp: getUserByConnectionId_def find_Some_iff)

section \<open>Drawing a tile\<close>

text \<open>
  C1. For a stored game state whose wall has 144 entries: with \<open>currentIndex\<close> at 144 or
  more, \<open>drawTile\<close> returns the empty string and leaves the world, hence
  \<open>currentIndex\<close>, as it is; below 144 it returns \<open>wall[currentIndex]\<close> and the stored
  state is the old one with \<open>currentIndex\<close> increased by exactly one, by a single additive
  update. So \<open>currentIndex\<close> never decreases, and whatever \<open>drawTile\<close> returns is the
  empty string at exhaustion or the tile at an index inside the wall.
\<close>

theorem drawTile_wall:
  assumes "gameStates w gid = Some gs" and "length (wall gs) = 144"
  shows "(144 \<le> currentIndex gs \<longrightarrow> drawTile gid w = (Inr (Some ''''), w))
       \<and> (currentIndex gs < 144 \<longrightarrow>
            drawTile gid w =
              (Inr (Some (wall gs ! currentIndex gs)),
               w\<lparr>gameStates := (gameStates w)(gid \<mapsto> gs\<lparr>currentIndex := currentIndex gs + 1\<rparr>),
                 trace := trace w @ [Wrote GAME_STATE_TABLE gid]\<rparr>))
       \<and> (\<exists>gs'. gameStates (snd (drawTile gid w)) gid = Some gs'
               \<and> currentIndex gs \<le> currentIndex gs'
               \<and> currentIndex gs' \<le> currentIndex gs + 1)
       \<and> (\<forall>t. fst (drawTile gid w) = Inr t \<longrightarrow>
              t = Some '''' \<and> 144 \<le> currentIndex gs
            \<or> t = Some (wall gs ! currentIndex gs) \<and> currentIndex gs < length (wall gs))"
proof -
  have inc: "incrementCurrentTileIndex gid w =
      (Inr (Some (gs\<lparr>currentIndex := currentIndex gs + 1\<rparr>)),
       w\<lparr>gameStates := (gameStates w)(gid \<mapsto> gs\<lparr>currentIndex := currentIndex gs + 1\<rparr>),
         trace := trace w @ [Wrote GAME_STATE_TABLE gid]\<rparr>)"
    using assms(1) by (simp add: incrementCurrentTileIndex_def updateGameState_hit)
  show ?thesis
  proof (cases "144 \<le> currentIndex gs")
    case True
    then show ?thesis using assms
      by (simp add: drawTile_def getGameStateByGameId_def DEFAULT_WALL_LENGTH_def)
  next
    case False
    then show ?thesis using assms inc
      by (simp add: drawTile_def getGameStateByGameId_def DEFAULT_WALL_LENGTH_def)
  qed
qed

theorem drawTile_wall_witness:
  "drawTile ''g1'' (exampleWorld (exampleState 52 3 0)) =
     (Inr (Some ''7_BAMBOO''),
      (exampleWorld (exampleState 52 3 0))
        \<lparr>gameStates := [''g1'' \<mapsto> exampleState 53 3 0],
         trace := [Wrote GAME_STATE_TABLE ''g1'']\<rparr>)
 \<and> drawTile ''g1'' (exampleWorld (exampleState 144 3 0)) =
     (Inr (Some ''''), exampleWorld (exampleState 144 3 0))"
proof -
  have len: "length (wall (exampleState i 3 0)) = 144" for i
    by (simp add: exampleState_fields exampleWall_length)
  have next_state: "(exampleState 52 3 0)\<lparr>currentIndex := 53\<rparr> = exampleState 53 3 0"
    by (simp add: exampleState_def)
  have a: "drawTile ''g1'' (exampleWorld (exampleState 52 3 0)) =
     (Inr (Some ''7_BAMBOO''),
      (exampleWorld (exampleState 52 3 0))
        \<lparr>gameStates := [''g1'' \<mapsto> exampleState 53 3 0],
         trace := [Wrote GAME_STATE_TABLE ''g1'']\<rparr>)"
    using drawTile_wall [OF exampleWorld_stored len, of 52, THEN conjunct2, THEN conjunct1]
    by (simp add: exampleState_fields exampleWall_52) (simp add: exampleWorld_def next_state)
  have b: "drawTile ''g1'' (exampleWorld (exampleState 144 3 0)) =
     (Inr (Some ''''), exampleWorld (exampleState 144 3 0))"
    using drawTile_wall [OF exampleWorld_stored len, of 144, THEN conjunct1]
    by (simp add: exampleState_fields)
  from a b show ?thesis by simp
qed

section \<open>Interactions with a played tile\<close>

text \<open>
  C2. \<open>setPlayedTileInteraction\<close>: if the game state is stored and its
  \<open>interactionCount\<close> is below 4, the stored state becomes the old one with exactly the
  record of the call appended to \<open>playedTileInteractions\<close> and \<open>interactionCount\<close>
  increased by exactly one, and that state is returned. If there is no such state, or its
  \<open>interactionCount\<close> is 4 or more, the store rejects the update: the call reports that
  no update occurred (the conditional-check failure) and the world is left exactly as it
  was.
\<close>

theorem setPlayedTileInteraction_gate:
  "(gameStates w gid = Some gs \<and> interactionCount gs < 4 \<longrightarrow>
      setPlayedTileInteraction gid cid tiles meld skip w =
        (Inr (Some (gs\<lparr>interactionCount := interactionCount gs + 1,
                       playedTileInteractions := playedTileInteractions gs @
                         [\<lparr>pt_connectionId = cid, pt_playedTiles = tiles, meldType = meld,
                           skipInteraction = skip\<rparr>]\<rparr>)),
         w\<lparr>gameStates := (gameStates w)(gid \<mapsto>
               gs\<lparr>interactionCount := interactionCount gs + 1,
                  playedTileInteractions := playedTileInteractions gs @
                    [\<lparr>pt_connectionId = cid, pt_playedTiles = tiles, meldType = meld,
                      skipInteraction = skip\<rparr>]\<rparr>),
           trace := trace w @ [Wrote GAME_STATE_TABLE gid]\<rparr>))
 \<and> (gameStates w gid = None \<or> (\<exists>g. gameStates w gid = Some g \<and> 4 \<le> interactionCount g) \<longrightarrow>
      setPlayedTileInteraction gid cid tiles meld skip w = (Inl ConditionalCheckFailed, w))"
proof (intro conjI impI)
  assume "gameStates w gid = Some gs \<and> interactionCount gs < 4"
  then show "setPlayedTileInteraction gid cid tiles meld skip w =
        (Inr (Some (gs\<lparr>interactionCount := interactionCount gs + 1,
                       playedTileInteractions := playedTileInteractions gs @
                         [\<lparr>pt_connectionId = cid, pt_playedTiles = tiles, meldType = meld,
                           skipInteraction = skip\<rparr>]\<rparr>)),
         w\<lparr>gameStates := (gameStates w)(gid \<mapsto>
               gs\<lparr>interactionCount := interactionCount gs + 1,
                  playedTileInteractions := playedTileInteractions gs @
                    [\<lparr>pt_connectionId = cid, pt_playedTiles = tiles, meldType = meld,
                      skipInteraction = skip\<rparr>]\<rparr>),
           trace := trace w @ [Wrote GAME_STATE_TABLE gid]\<rparr>)"
    using setPlayedTileInteraction_hit by blast
next
  assume "gameStates w gid = None \<or> (\<exists>g. gameStates w gid = Some g \<and> 4 \<le> interactionCount g)"
  then show "setPlayedTileInteraction gid cid tiles meld skip w = (Inl ConditionalCheckFailed, w)"
    by (auto simp: setPlayedTileInteraction_def updateGameState_def
          DEFAULT_MAX_USERS_IN_GAME_def)
qed

theorem setPlayedTileInteraction_gate_witness:
  "setPlayedTileInteraction ''g1'' ''c2'' [''1_DOT''] ''TRIPLET'' False
       (exampleWorld (exampleState 52 3 0)) =
     (Inr (Some (exampleState 52 3 1)),
      (exampleWorld (exampleState 52 3 0))
        \<lparr>gameStates := [''g1'' \<mapsto> exampleState 52 3 1],
         trace := [Wrote GAME_STATE_TABLE ''g1'']\<rparr>)
 \<and> setPlayedTileInteraction ''g1'' ''c2'' [''1_DOT''] ''TRIPLET'' False
       (exampleWorld (exampleState 52 3 4)) =
     (Inl ConditionalCheckFailed, exampleWorld (exampleState 52 3 4))
 \<and> setPlayedTileInteraction ''g9'' ''c2'' [''1_DOT''] ''TRIPLET'' False
       (exampleWorld (exampleState 52 3 0)) =
     (Inl ConditionalCheckFailed, exampleWorld (exampleState 52 3 0))"
proof -
  have next_state:
    "(exampleState 52 3 0)\<lparr>interactionCount := Suc 0,
        playedTileInteractions := [exampleInteraction]\<rparr> = exampleState 52 3 1"
    by (simp add: exampleState_def)
  have a: "setPlayedTileInteraction ''g1'' ''c2'' [''1_DOT''] ''TRIPLET'' False
       (exampleWorld (exampleState 52 3 0)) =
     (Inr (Some (exampleState 52 3 1)),
      (exampleWorld (exampleState 52 3 0))
        \<lparr>gameStates := [''g1'' \<mapsto> exampleState 52 3 1],
         trace := [Wrote GAME_STATE_TABLE ''g1'']\<rparr>)"
    using setPlayedTileInteraction_gate [of "exampleWorld (exampleState 52 3 0)" "''g1''"
        "exampleState 52 3 0" "''c2''" "[''1_DOT'']" "''TRIPLET''" False, THEN conjunct1]
    by (simp add: exampleWorld_stored exampleState_fields
          exampleInteraction_def [symmetric] next_state)
       (simp add: exampleWorld_def)
  have b: "setPlayedTileInteraction ''g1'' ''c2'' [''1_DOT''] ''TRIPLET'' False
       (exampleWorld (exampleState 52 3 4)) =
     (Inl ConditionalCheckFailed, exampleWorld (exampleState 52 3 4))"
    using setPlayedTileInteraction_gate [of "exampleWorld (exampleState 52 3 4)" "''g1''"
        _ "''c2''" "[''1_DOT'']" "''TRIPLET''" False, THEN conjunct2]
    by (simp add: exampleWorld_stored exampleState_fields)
  have c: "setPlayedTileInteraction ''g9'' ''c2'' [''1_DOT''] ''TRIPLET'' False
       (exampleWorld (exampleState 52 3 0)) =
     (Inl ConditionalCheckFailed, exampleWorld (exampleState 52 3 0))"
    using setPlayedTileInteraction_gate [of "exampleWorld (exampleState 52 3 0)" "''g9''"
        _ "''c2''" "[''1_DOT'']" "''TRIPLET''" False, THEN conjunct2]
    by (simp add: exampleWorld_def)
  from a b c show ?thesis by simp
qed

text \<open>
  C8. \<open>resetPlayedTileInteraction\<close> on a stored game state stores and returns the old
  state with \<open>interactionCount\<close> set to 0 and \<open>playedTileInteractions\<close> emptied; the wall,
  the hands, \<open>currentIndex\<close>, the dealer, the wind and the turn are those of the old state,
  and no other row of any table changes. Without a stored state the conditional update is
  rejected and the world is left exactly as it was.
\<close>

theorem resetPlayedTileInteraction_frame:
  "(gameStates w gid = Some gs \<longrightarrow>
      resetPlayedTileInteraction gid w =
        (Inr (Some (gs\<lparr>interactionCount := 0, playedTileInteractions := []\<rparr>)),
         w\<lparr>gameStates :=
             (gameStates w)(gid \<mapsto> gs\<lparr>interactionCount := 0, playedTileInteractions := []\<rparr>),
           trace := trace w @ [Wrote GAME_STATE_TABLE gid]\<rparr>)
      \<and> (\<forall>r w'. resetPlayedTileInteraction gid w = (Inr (Some r), w') \<longrightarrow>
            interactionCount r = 0 \<and> playedTileInteractions r = []
          \<and> gameId r = gameId gs \<and> wall r = wall gs \<and> hands r = hands gs
          \<and> currentIndex r = currentIndex gs \<and> dealer r = dealer gs
          \<and> currentWind r = currentWind gs \<and> currentTurn r = currentTurn gs
          \<and> gameStates w' gid = Some r
          \<and> (\<forall>other. other \<noteq> gid \<longrightarrow> gameStates w' other = gameStates w other)
          \<and> connections w' = connections w \<and> games w' = games w))
 \<and> (gameStates w gid = None \<longrightarrow>
      resetPlayedTileInteraction gid w = (Inl ConditionalCheckFailed, w))"
  by (auto simp: resetPlayedTileInteraction_def updateGameState_def)

theorem resetPlayedTileInteraction_frame_witness:
  "resetPlayedTileInteraction ''g1'' (exampleWorld (exampleState 60 2 3)) =
     (Inr (Some (exampleState 60 2 0)),
      (exampleWorld (exampleState 60 2 3))
        \<lparr>gameStates := [''g1'' \<mapsto> exampleState 60 2 0],
         trace := [Wrote GAME_STATE_TABLE ''g1'']\<rparr>)
 \<and> resetPlayedTileInteraction ''g9'' (exampleWorld (exampleState 60 2 3)) =
     (Inl ConditionalCheckFailed, exampleWorld (exampleState 60 2 3))"
proof -
  have next_state:
    "(exampleState 60 2 3)\<lparr>interactionCount := 0, playedTileInteractions := []\<rparr> =
       exampleState 60 2 0"
    by (simp add: exampleState_def)
  have a: "resetPlayedTileInteraction ''g1'' (exampleWorld (exampleState 60 2 3)) =
     (Inr (Some (exampleState 60 2 0)),
      (exampleWorld (exampleState 60 2 3))
        \<lparr>gameStates := [''g1'' \<mapsto> exampleState 60 2 0],
         trace := [Wrote GAME_STATE_TABLE ''g1'']\<rparr>)"
    using resetPlayedTileInteraction_frame [of "exampleWorld (exampleState 60 2 3)" "''g1''"
        "exampleState 60 2 3", THEN conjunct1, THEN mp, OF exampleWorld_stored, THEN conjunct1]
    by (simp add: next_state) (simp add: exampleWorld_def)
  have b: "resetPlayedTileInteraction ''g9'' (exampleWorld (exampleState 60 2 3)) =
     (Inl ConditionalCheckFailed, exampleWorld (exampleState 60 2 3))"
    using resetPlayedTileInteraction_frame [of "exampleWorld (exampleState 60 2 3)" "''g9''",
        THEN conjunct2]
    by (simp add: exampleWorld_def)
  from a b show ?thesis by simp
qed

text \<open>
  C3. \<open>interactionCount\<close> equals the length of \<open>playedTileInteractions\<close>: in the state
  that \<open>initGameState\<close> stores (0 and the empty list); after a successful
  \<open>setPlayedTileInteraction\<close> on a state where it held (one more of each); after a
  successful \<open>resetPlayedTileInteraction\<close> and after a successful \<open>startNewGameRound\<close>
  (0 and the empty list again). From a state with count 0 and no interactions, any N calls
  of \<open>setPlayedTileInteraction\<close> with N at most 3 all succeed, and then the count is N
  and the list has N entries.
\<close>

theorem interactionCount_is_length:
  "countMatchesList (fst (initGameState gid deal w))
 \<and> gameStates (snd (initGameState gid deal w)) gid = Some (fst (initGameState gid deal w))
 \<and> (gameStates w gid = Some gs \<and> countMatchesList gs
      \<and> setPlayedTileInteraction gid cid tiles meld skip w = (Inr r, w') \<longrightarrow>
      (\<exists>gs'. r = Some gs' \<and> gameStates w' gid = Some gs' \<and> countMatchesList gs'
          \<and> interactionCount gs' = interactionCount gs + 1
          \<and> length (playedTileInteractions gs') = length (playedTileInteractions gs) + 1))
 \<and> (resetPlayedTileInteraction gid w = (Inr r, w') \<longrightarrow>
      (\<exists>gs'. r = Some gs' \<and> gameStates w' gid = Some gs' \<and> countMatchesList gs'
          \<and> interactionCount gs' = 0 \<and> playedTileInteractions gs' = []))
 \<and> (startNewGameRound gid deal isDealerChanged w = (Inr r, w') \<longrightarrow>
      (\<exists>gs'. r = Some gs' \<and> gameStates w' gid = Some gs' \<and> countMatchesList gs'
          \<and> interactionCount gs' = 0 \<and> playedTileInteractions gs' = []))
 \<and> (gameStates w gid = Some gs \<and> interactionCount gs = 0 \<and> playedTileInteractions gs = []
      \<and> length calls \<le> 3 \<longrightarrow>
      (\<exists>gs' w'. setPlayedTileInteractions gid calls w = (Inr (), w')
          \<and> gameStates w' gid = Some gs'
          \<and> interactionCount gs' = length calls
          \<and> length (playedTileInteractions gs') = length calls))"
proof -
  have init: "countMatchesList (fst (initGameState gid deal w))"
    "gameStates (snd (initGameState gid deal w)) gid = Some (fst (initGameState gid deal w))"
    by (simp_all add: initGameState_def countMatchesList_def Let_def)
  have add: "\<exists>gs'. r = Some gs' \<and> gameStates w' gid = Some gs' \<and> countMatchesList gs'
          \<and> interactionCount gs' = interactionCount gs + 1
          \<and> length (playedTileInteractions gs') = length (playedTileInteractions gs) + 1"
    if "gameStates w gid = Some gs" "countMatchesList gs"
      "setPlayedTileInteraction gid cid tiles meld skip w = (Inr r, w')"
    using that
    by (auto simp: setPlayedTileInteraction_def Let_def countMatchesList_def
          dest!: updateGameState_returns)
  have reset: "\<exists>gs'. r = Some gs' \<and> gameStates w' gid = Some gs' \<and> countMatchesList gs'
          \<and> interactionCount gs' = 0 \<and> playedTileInteractions gs' = []"
    if "resetPlayedTileInteraction gid w = (Inr r, w')"
    using that
    by (auto simp: resetPlayedTileInteraction_def countMatchesList_def
          dest!: updateGameState_returns)
  have round: "\<exists>gs'. r = Some gs' \<and> gameStates w' gid = Some gs' \<and> countMatchesList gs'
          \<and> interactionCount gs' = 0 \<and> playedTileInteractions gs' = []"
    if a: "startNewGameRound gid deal isDealerChanged w = (Inr r, w')"
  proof (cases "gameStates w gid")
    case None
    then show ?thesis using a by (simp add: startNewGameRound_absent)
  next
    case (Some g)
    show ?thesis
      using a startNewGameRound_hit [OF Some, of deal isDealerChanged]
      by (auto simp: Let_def countMatchesList_def split: if_splits)
  qed
  have many: "\<exists>gs' w'. setPlayedTileInteractions gid calls w = (Inr (), w')
          \<and> gameStates w' gid = Some gs'
          \<and> interactionCount gs' = length calls
          \<and> length (playedTileInteractions gs') = length calls"
    if "gameStates w gid = Some gs" "interactionCount gs = 0" "playedTileInteractions gs = []"
      "length calls \<le> 3"
    using that setPlayedTileInteractions_from [of w gid gs calls]
    by (simp add: countMatchesList_def)
  from init add reset round many show ?thesis by blast
qed

theorem interactionCount_is_length_witness:
  "countMatchesList (fst (initGameState ''g1'' exampleDeal (exampleWorld (exampleState 52 3 2))))
 \<and> (\<exists>gs' w'. setPlayedTileInteractions ''g1''
                 [(''c2'', [''1_DOT''], ''TRIPLET'', False), (''c1'', [''1_DOT''], '''', True)]
                 (exampleWorld (exampleState 52 3 0)) = (Inr (), w')
        \<and> gameStates w' ''g1'' = Some gs'
        \<and> interactionCount gs' = 2
        \<and> length (playedTileInteractions gs') = 2)"
proof -
  note t = interactionCount_is_length [of "''g1''" exampleDeal "exampleWorld (exampleState 52 3 2)"]
  note u = interactionCount_is_length [of "''g1''" _ "exampleWorld (exampleState 52 3 0)"
      "exampleState 52 3 0" _ _ _ _ _ _ _
      "[(''c2'', [''1_DOT''], ''TRIPLET'', False), (''c1'', [''1_DOT''], '''', True)]"]
  have a: "countMatchesList (fst (initGameState ''g1'' exampleDeal (exampleWorld (exampleState 52 3 2))))"
    using t by blast
  have b: "\<exists>gs' w'. setPlayedTileInteractions ''g1''
                 [(''c2'', [''1_DOT''], ''TRIPLET'', False), (''c1'', [''1_DOT''], '''', True)]
                 (exampleWorld (exampleState 52 3 0)) = (Inr (), w')
        \<and> gameStates w' ''g1'' = Some gs'
        \<and> interactionCount gs' = 2
        \<and> length (playedTileInteractions gs') = 2"
    using u [THEN conjunct2, THEN conjunct2, THEN conjunct2, THEN conjunct2, THEN conjunct2]
    by (simp add: exampleWorld_stored exampleState_fields numeral_2_eq_2)
  from a b show ?thesis by simp
qed

section \<open>Dealer and wind\<close>

text \<open>
  C7. For a stored game state, \<open>changeWind\<close> and \<open>changeDealer\<close> fail with the store's
  conditional-check failure, and change nothing, whenever the next value is not below the
  bound of their condition. The next value being a remainder of a division by 4, it is
  always below \<open>DEFAULT_MAX_USERS_IN_GAME\<close>, which is 4: with that bound the failure
  cannot occur, and both operations succeed on every stored state, whatever wind and
  dealer it holds.
\<close>

theorem change_bounds:
  assumes "gameStates w gid = Some gs"
  shows "(\<not> (currentWind gs + 1) mod 4 < m \<longrightarrow>
            changeWind m gid w = (Inl ConditionalCheckFailed, w))
       \<and> (\<not> (dealer gs + 1) mod 4 < m \<longrightarrow>
            changeDealer m gid w = (Inl ConditionalCheckFailed, w))
       \<and> DEFAULT_MAX_USERS_IN_GAME = 4
       \<and> (currentWind gs + 1) mod 4 < DEFAULT_MAX_USERS_IN_GAME
       \<and> (dealer gs + 1) mod 4 < DEFAULT_MAX_USERS_IN_GAME
       \<and> changeWind DEFAULT_MAX_USERS_IN_GAME gid w =
           (Inr (Some (gs\<lparr>currentWind := (currentWind gs + 1) mod 4\<rparr>)),
            w\<lparr>gameStates := (gameStates w)(gid \<mapsto> gs\<lparr>currentWind := (currentWind gs + 1) mod 4\<rparr>),
              trace := trace w @ [Wrote GAME_STATE_TABLE gid]\<rparr>)
       \<and> (\<exists>g' w'. changeDealer DEFAULT_MAX_USERS_IN_GAME gid w = (Inr (Some g'), w')
              \<and> gameStates w' gid = Some g'
              \<and> dealer g' = (dealer gs + 1) mod 4)"
  using assms bound_holds [of gs] changeWind_rejected [OF assms] changeDealer_rejected [OF assms]
    changeWind_hit [OF assms bound_holds(1)]
    changeDealer_hit [OF assms bound_holds(2) bound_holds(1)]
  by (simp add: Let_def DEFAULT_MAX_USERS_IN_GAME_def)

theorem change_bounds_witness:
  "changeWind 2 ''g1'' (exampleWorld (exampleState 60 1 0)) =
     (Inl ConditionalCheckFailed, exampleWorld (exampleState 60 1 0))
 \<and> changeDealer 2 ''g1'' (exampleWorld (exampleState 60 1 0)) =
     (Inl ConditionalCheckFailed, exampleWorld (exampleState 60 1 0))
 \<and> fst (changeWind DEFAULT_MAX_USERS_IN_GAME ''g1'' (exampleWorld (exampleState 60 1 0))) =
     Inr (Some ((exampleState 60 1 0)\<lparr>currentWind := 2\<rparr>))
 \<and> (\<exists>g' w'. changeDealer DEFAULT_MAX_USERS_IN_GAME ''g1'' (exampleWorld (exampleState 60 1 0)) =
        (Inr (Some g'), w') \<and> dealer g' = 2)"
proof -
  note t = change_bounds [of "exampleWorld (exampleState 60 1 0)" "''g1''" "exampleState 60 1 0",
      OF exampleWorld_stored]
  have a: "changeWind 2 ''g1'' (exampleWorld (exampleState 60 1 0)) =
     (Inl ConditionalCheckFailed, exampleWorld (exampleState 60 1 0))"
    using t [of 2, THEN conjunct1] by (simp add: exampleState_fields)
  have b: "changeDealer 2 ''g1'' (exampleWorld (exampleState 60 1 0)) =
     (Inl ConditionalCheckFailed, exampleWorld (exampleState 60 1 0))"
    using t [of 2, THEN conjunct2, THEN conjunct1] by (simp add: exampleState_fields)
  have c: "fst (changeWind DEFAULT_MAX_USERS_IN_GAME ''g1'' (exampleWorld (exampleState 60 1 0))) =
     Inr (Some ((exampleState 60 1 0)\<lparr>currentWind := 2\<rparr>))"
    using t [of 0] by (simp add: exampleState_fields numeral_2_eq_2)
  have d: "\<exists>g' w'. changeDealer DEFAULT_MAX_USERS_IN_GAME ''g1'' (exampleWorld (exampleState 60 1 0)) =
        (Inr (Some g'), w') \<and> dealer g' = 2"
    using t [of 0] by (auto simp: exampleState_fields numeral_2_eq_2)
  from a b c d show ?thesis by simp
qed

text \<open>
  C4. For a stored game state, \<open>startNewGameRound\<close> with \<open>isDealerChanged\<close> true returns
  and stores a state whose dealer is the old dealer plus one modulo 4, and whose wind is
  the old wind plus one modulo 4 exactly when the new dealer is 0, the old wind otherwise;
  with \<open>isDealerChanged\<close> false the dealer and the wind are the old ones. When the dealer
  wraps, \<open>changeDealer\<close> first runs \<open>changeWind\<close>, after which the wind is advanced while
  the dealer is still the old one, and only then sets the dealer to 0. So dealer 3 gives
  dealer 0 with the wind advanced, and dealer 1 gives dealer 2 with the wind unchanged.
\<close>

theorem startNewGameRound_dealer:
  assumes "gameStates w gid = Some gs"
  shows "(\<exists>g' w'. startNewGameRound gid deal True w = (Inr (Some g'), w')
            \<and> gameStates w' gid = Some g'
            \<and> dealer g' = (dealer gs + 1) mod 4
            \<and> currentWind g' = (if (dealer gs + 1) mod 4 = 0 then (currentWind gs + 1) mod 4
                               else currentWind gs))
       \<and> (\<exists>g' w'. startNewGameRound gid deal False w = (Inr (Some g'), w')
            \<and> gameStates w' gid = Some g'
            \<and> dealer g' = dealer gs \<and> currentWind g' = currentWind gs)
       \<and> ((dealer gs + 1) mod 4 = 0 \<longrightarrow>
            (\<exists>g1 w1. changeWind DEFAULT_MAX_USERS_IN_GAME gid w = (Inr (Some g1), w1)
               \<and> gameStates w1 gid = Some g1
               \<and> currentWind g1 = (currentWind gs + 1) mod 4 \<and> dealer g1 = dealer gs
               \<and> changeDealer DEFAULT_MAX_USERS_IN_GAME gid w =
                   updateGameState gid (\<lambda>_. 0 < DEFAULT_MAX_USERS_IN_GAME)
                     (\<lambda>g. g\<lparr>dealer := 0\<rparr>) w1))"
proof -
  have wrap: "(dealer gs + 1) mod 4 = 0 \<Longrightarrow>
      changeDealer DEFAULT_MAX_USERS_IN_GAME gid w =
        updateGameState gid (\<lambda>_. 0 < DEFAULT_MAX_USERS_IN_GAME) (\<lambda>g. g\<lparr>dealer := 0\<rparr>)
          (w\<lparr>gameStates := (gameStates w)(gid \<mapsto> gs\<lparr>currentWind := (currentWind gs + 1) mod 4\<rparr>),
             trace := trace w @ [Wrote GAME_STATE_TABLE gid]\<rparr>)"
    using assms bound_holds(1) [of gs]
    by (simp add: changeDealer_def getGameStateByGameId_def changeWind_hit Let_def)
  show ?thesis
    using startNewGameRound_hit [OF assms, of deal True]
      startNewGameRound_hit [OF assms, of deal False]
      wrap changeWind_hit [OF assms bound_holds(1)]
    by (simp add: Let_def)
qed

theorem startNewGameRound_dealer_witness:
  "(\<exists>g' w'. startNewGameRound ''g1'' exampleDeal True (exampleWorld (exampleState 144 3 2)) =
        (Inr (Some g'), w')
      \<and> gameStates w' ''g1'' = Some g' \<and> dealer g' = 0 \<and> currentWind g' = 2)
 \<and> (\<exists>g' w'. startNewGameRound ''g1'' exampleDeal True (exampleWorld (exampleState 144 1 2)) =
        (Inr (Some g'), w')
      \<and> gameStates w' ''g1'' = Some g' \<and> dealer g' = 2 \<and> currentWind g' = 1)
 \<and> (\<exists>g' w'. startNewGameRound ''g1'' exampleDeal False (exampleWorld (exampleState 144 3 2)) =
        (Inr (Some g'), w')
      \<and> gameStates w' ''g1'' = Some g' \<and> dealer g' = 3 \<and> currentWind g' = 1)"
proof -
  note t3 = startNewGameRound_dealer [of "exampleWorld (exampleState 144 3 2)" "''g1''"
      "exampleState 144 3 2" exampleDeal, OF exampleWorld_stored]
  note t1 = startNewGameRound_dealer [of "exampleWorld (exampleState 144 1 2)" "''g1''"
      "exampleState 144 1 2" exampleDeal, OF exampleWorld_stored]
  have a: "\<exists>g' w'. startNewGameRound ''g1'' exampleDeal True (exampleWorld (exampleState 144 3 2)) =
        (Inr (Some g'), w')
      \<and> gameStates w' ''g1'' = Some g' \<and> dealer g' = 0 \<and> currentWind g' = 2"
    using t3 [THEN conjunct1] by (simp add: exampleState_fields numeral_2_eq_2)
  have b: "\<exists>g' w'. startNewGameRound ''g1'' exampleDeal True (exampleWorld (exampleState 144 1 2)) =
        (Inr (Some g'), w')
      \<and> gameStates w' ''g1'' = Some g' \<and> dealer g' = 2 \<and> currentWind g' = 1"
    using t1 [THEN conjunct1] by (simp add: exampleState_fields numeral_2_eq_2)
  have c: "\<exists>g' w'. startNewGameRound ''g1'' exampleDeal False (exampleWorld (exampleState 144 3 2)) =
        (Inr (Some g'), w')
      \<and> gameStates w' ''g1'' = Some g' \<and> dealer g' = 3 \<and> currentWind g' = 1"
    using t3 [THEN conjunct2, THEN conjunct1] by (simp add: exampleState_fields)
  from a b c show ?thesis by simp
qed

section \<open>Starting a round: what each player is sent\<close>

text \<open>
  C5. \<open>broadcastGameReset\<close> is \<open>broadcastGameStart\<close> for a given state. When every
  connection id has an entry in the hands, \<open>broadcastGameStart\<close> sends exactly one message
  per connection id, in order, and none else. The message to \<open>c\<close> has the action
  GAME_START and a payload of exactly three parts: as tiles the hand of the entry of \<open>c\<close>,
  the played tiles of every hand, each with its connection id, and the shared
  \<open>currentIndex\<close>. This holds for a given state and for a state that \<open>initGameState\<close>
  has just stored. Where no two hands share a connection id, the entry looked up for a
  player is that player's one hand. For two states, or two deals, that differ at most in
  the concealed hands of players other than \<open>c\<close>, the call ends the same way and \<open>c\<close> is
  sent the same messages.
\<close>

theorem broadcastGameStart_personalized:
  "broadcastGameReset deal cids gs w = broadcastGameStart deal '''' cids False (Some gs) w
 \<and> ((\<forall>c\<in>set cids. \<exists>h\<in>set (hands gs). hand_connectionId h = c) \<longrightarrow>
      broadcastGameStart deal gid cids False (Some gs) w =
        (Inr (), w\<lparr>trace := trace w @
           map (\<lambda>c. Sent c
                  \<lparr>action = GAME_START,
                   payload = GameStartPayload
                     (hand (the (getHandByConnectionId (hands gs) c)))
                     (map (\<lambda>h. \<lparr>self_connectionId = hand_connectionId h,
                                self_playedTiles = playedTiles h\<rparr>) (hands gs))
                     (currentIndex gs),
                   success = None, error = None\<rparr>) cids\<rparr>)
      \<and> (\<forall>c\<in>set cids. \<exists>h\<in>set (hands gs).
             getHandByConnectionId (hands gs) c = Some h \<and> hand_connectionId h = c))
 \<and> ((\<forall>c\<in>set cids. \<exists>h\<in>set (dealtHands deal). hand_connectionId h = c) \<longrightarrow>
      broadcastGameStart deal gid cids True gameState w =
        (Inr (), (snd (initGameState gid deal w))
           \<lparr>trace := trace (snd (initGameState gid deal w)) @
              map (\<lambda>c. Sent c
                     \<lparr>action = GAME_START,
                      payload = GameStartPayload
                        (hand (the (getHandByConnectionId (dealtHands deal) c)))
                        (map (\<lambda>h. \<lparr>self_connectionId = hand_connectionId h,
                                   self_playedTiles = playedTiles h\<rparr>) (dealtHands deal))
                        (dealtIndex deal),
                      success = None, error = None\<rparr>) cids\<rparr>))
 \<and> (distinct (map hand_connectionId hs) \<longrightarrow>
      (\<forall>h\<in>set hs. getHandByConnectionId hs (hand_connectionId h) = Some h))
 \<and> (sameViewFor c (hands gs) (hands gs2) \<and> currentIndex gs = currentIndex gs2 \<longrightarrow>
      fst (broadcastGameStart deal gid cids False (Some gs) w) =
        fst (broadcastGameStart deal gid cids False (Some gs2) w)
      \<and> received c (snd (broadcastGameStart deal gid cids False (Some gs) w)) =
        received c (snd (broadcastGameStart deal gid cids False (Some gs2) w)))
 \<and> (sameViewFor c (dealtHands deal) (dealtHands deal2) \<and> dealtIndex deal = dealtIndex deal2 \<longrightarrow>
      fst (broadcastGameStart deal gid cids True gameState w) =
        fst (broadcastGameStart deal2 gid cids True gameState w)
      \<and> received c (snd (broadcastGameStart deal gid cids True gameState w)) =
        received c (snd (broadcastGameStart deal2 gid cids True gameState w)))"
proof -
  have reset: "broadcastGameReset deal cids gs w =
      broadcastGameStart deal '''' cids False (Some gs) w"
    by (simp add: broadcastGameReset_def)
  have given: "broadcastGameStart deal gid cids False (Some gs) w =
        (Inr (), w\<lparr>trace := trace w @
           map (\<lambda>c. Sent c
                  \<lparr>action = GAME_START,
                   payload = GameStartPayload
                     (hand (the (getHandByConnectionId (hands gs) c)))
                     (map (\<lambda>h. \<lparr>self_connectionId = hand_connectionId h,
                                self_playedTiles = playedTiles h\<rparr>) (hands gs))
                     (currentIndex gs),
                   success = None, error = None\<rparr>) cids\<rparr>)"
    if "\<forall>c\<in>set cids. \<exists>h\<in>set (hands gs). hand_connectionId h = c"
    using that
    by (simp add: broadcastGameStart_def sendGameStart_covered createGameStartResponse_def
          createWSResponse_def allSelfPlayedTilesAtStart_def)
  have own: "\<forall>c\<in>set cids. \<exists>h\<in>set (hands gs).
             getHandByConnectionId (hands gs) c = Some h \<and> hand_connectionId h = c"
    if "\<forall>c\<in>set cids. \<exists>h\<in>set (hands gs). hand_connectionId h = c"
    using that getHand_found by blast
  have fresh: "broadcastGameStart deal gid cids True gameState w =
        (Inr (), (snd (initGameState gid deal w))
           \<lparr>trace := trace (snd (initGameState gid deal w)) @
              map (\<lambda>c. Sent c
                     \<lparr>action = GAME_START,
                      payload = GameStartPayload
                        (hand (the (getHandByConnectionId (dealtHands deal) c)))
                        (map (\<lambda>h. \<lparr>self_connectionId = hand_connectionId h,
                                   self_playedTiles = playedTiles h\<rparr>) (dealtHands deal))
                        (dealtIndex deal),
                      success = None, error = None\<rparr>) cids\<rparr>)"
    if "\<forall>c\<in>set cids. \<exists>h\<in>set (dealtHands deal). hand_connectionId h = c"
    using that
    by (simp add: broadcastGameStart_def initGameState_def Let_def sendGameStart_covered
          createGameStartResponse_def createWSResponse_def allSelfPlayedTilesAtStart_def)
  have one: "\<forall>h\<in>set hs. getHandByConnectionId hs (hand_connectionId h) = Some h"
    if "distinct (map hand_connectionId hs)"
    using that getHand_distinct by blast
  have same: "fst (broadcastGameStart deal gid cids False (Some gs) w) =
        fst (broadcastGameStart deal gid cids False (Some gs2) w)
      \<and> received c (snd (broadcastGameStart deal gid cids False (Some gs) w)) =
        received c (snd (broadcastGameStart deal gid cids False (Some gs2) w))"
    if "sameViewFor c (hands gs) (hands gs2)" "currentIndex gs = currentIndex gs2"
    using that sendGameStart_sameView [of c "hands gs" "hands gs2" w w]
    by (simp add: broadcastGameStart_def sameView_selfPlayed [of c "hands gs" "hands gs2"])
  have same_deal: "fst (broadcastGameStart deal gid cids True gameState w) =
        fst (broadcastGameStart deal2 gid cids True gameState w)
      \<and> received c (snd (broadcastGameStart deal gid cids True gameState w)) =
        received c (snd (broadcastGameStart deal2 gid cids True gameState w))"
    if v: "sameViewFor c (dealtHands deal) (dealtHands deal2)"
      and i: "dealtIndex deal = dealtIndex deal2"
  proof -
    have r: "received c (snd (initGameState gid deal w)) =
        received c (snd (initGameState gid deal2 w))"
      by (simp add: initGameState_def Let_def received_def)
    show ?thesis
      using sendGameStart_sameView [OF v r] i
      by (simp add: broadcastGameStart_def initGameState_def Let_def
            sameView_selfPlayed [OF v])
  qed
  from reset given own fresh one same same_deal show ?thesis by blast
qed

theorem broadcastGameStart_personalized_witness:
  "broadcastGameStart exampleDeal ''g1'' [''c1'', ''c2''] False (Some (exampleState 52 3 0))
       (exampleWorld (exampleState 52 3 0)) =
     (Inr (),
      (exampleWorld (exampleState 52 3 0))
        \<lparr>trace :=
           [Sent ''c1''
              \<lparr>action = GAME_START,
               payload = GameStartPayload [''1_DOT'', ''2_DOT'']
                 [\<lparr>self_connectionId = ''c1'', self_playedTiles = [''1_FLOWER'']\<rparr>,
                  \<lparr>self_connectionId = ''c2'', self_playedTiles = []\<rparr>] 52,
               success = None, error = None\<rparr>,
            Sent ''c2''
              \<lparr>action = GAME_START,
               payload = GameStartPayload [''3_BAMBOO'', ''EAST'']
                 [\<lparr>self_connectionId = ''c1'', self_playedTiles = [''1_FLOWER'']\<rparr>,
                  \<lparr>self_connectionId = ''c2'', self_playedTiles = []\<rparr>] 52,
               success = None, error = None\<rparr>]\<rparr>)
 \<and> received ''c1'' (snd (broadcastGameStart exampleDeal ''g1'' [''c1'', ''c2''] False
        (Some (exampleState 52 3 0)) (exampleWorld (exampleState 52 3 0)))) =
   received ''c1'' (snd (broadcastGameStart exampleDeal ''g1'' [''c1'', ''c2''] False
        (Some ((exampleState 52 3 0)
           \<lparr>hands := [\<lparr>hand_connectionId = ''c1'', hand = [''1_DOT'', ''2_DOT''],
                         playedTiles = [''1_FLOWER'']\<rparr>,
                       \<lparr>hand_connectionId = ''c2'', hand = [''9_DOT''], playedTiles = []\<rparr>]\<rparr>))
        (exampleWorld (exampleState 52 3 0))))
 \<and> getHandByConnectionId exampleHands ''c2'' =
     Some \<lparr>hand_connectionId = ''c2'', hand = [''3_BAMBOO'', ''EAST''], playedTiles = []\<rparr>"
proof -
  let ?other = "(exampleState 52 3 0)
           \<lparr>hands := [\<lparr>hand_connectionId = ''c1'', hand = [''1_DOT'', ''2_DOT''],
                         playedTiles = [''1_FLOWER'']\<rparr>,
                       \<lparr>hand_connectionId = ''c2'', hand = [''9_DOT''], playedTiles = []\<rparr>]\<rparr>"
  note t = broadcastGameStart_personalized [of exampleDeal "[''c1'', ''c2'']"
      "exampleState 52 3 0" "exampleWorld (exampleState 52 3 0)" "''g1''" _ exampleHands
      "''c1''" ?other exampleDeal]
  have cover: "\<forall>c\<in>set [''c1'', ''c2'']. \<exists>h\<in>set (hands (exampleState 52 3 0)). hand_connectionId h = c"
    by (simp add: exampleState_fields exampleHands_def)
  have view: "sameViewFor ''c1'' (hands (exampleState 52 3 0)) (hands ?other)
      \<and> currentIndex (exampleState 52 3 0) = currentIndex ?other"
    by (simp add: sameViewFor_def exampleState_fields exampleHands_def)
  have ids: "distinct (map hand_connectionId exampleHands)"
    by (simp add: exampleHands_def)
  have second: "\<lparr>hand_connectionId = ''c2'', hand = [''3_BAMBOO'', ''EAST''], playedTiles = []\<rparr>
      \<in> set exampleHands"
    by (simp add: exampleHands_def)
  have c: "getHandByConnectionId exampleHands ''c2'' =
      Some \<lparr>hand_connectionId = ''c2'', hand = [''3_BAMBOO'', ''EAST''], playedTiles = []\<rparr>"
    using t [THEN conjunct2, THEN conjunct2, THEN conjunct2, THEN conjunct1, THEN mp, OF ids,
        THEN bspec, OF second]
    by simp
  have first: "\<lparr>hand_connectionId = ''c1'', hand = [''1_DOT'', ''2_DOT''],
        playedTiles = [''1_FLOWER'']\<rparr> \<in> set exampleHands"
    by (simp add: exampleHands_def)
  have c1: "getHandByConnectionId exampleHands ''c1'' =
      Some \<lparr>hand_connectionId = ''c1'', hand = [''1_DOT'', ''2_DOT''],
        playedTiles = [''1_FLOWER'']\<rparr>"
    using t [THEN conjunct2, THEN conjunct2, THEN conjunct2, THEN conjunct1, THEN mp, OF ids,
        THEN bspec, OF first]
    by simp
  have piles: "map (\<lambda>h. \<lparr>self_connectionId = hand_connectionId h,
                        self_playedTiles = playedTiles h\<rparr>) exampleHands =
      [\<lparr>self_connectionId = ''c1'', self_playedTiles = [''1_FLOWER'']\<rparr>,
       \<lparr>self_connectionId = ''c2'', self_playedTiles = []\<rparr>]"
    by (simp add: exampleHands_def)
  have a: "broadcastGameStart exampleDeal ''g1'' [''c1'', ''c2''] False (Some (exampleState 52 3 0))
       (exampleWorld (exampleState 52 3 0)) =
     (Inr (),
      (exampleWorld (exampleState 52 3 0))
        \<lparr>trace :=
           [Sent ''c1''
              \<lparr>action = GAME_START,
               payload = GameStartPayload [''1_DOT'', ''2_DOT'']
                 [\<lparr>self_connectionId = ''c1'', self_playedTiles = [''1_FLOWER'']\<rparr>,
                  \<lparr>self_connectionId = ''c2'', self_playedTiles = []\<rparr>] 52,
               success = None, error = None\<rparr>,
            Sent ''c2''
              \<lparr>action = GAME_START,
               payload = GameStartPayload [''3_BAMBOO'', ''EAST'']
                 [\<lparr>self_connectionId = ''c1'', self_playedTiles = [''1_FLOWER'']\<rparr>,
                  \<lparr>self_connectionId = ''c2'', self_playedTiles = []\<rparr>] 52,
               success = None, error = None\<rparr>]\<rparr>)"
    using t [THEN conjunct2, THEN conjunct1, THEN mp, OF cover, THEN conjunct1]
    by (simp add: exampleState_fields c c1 piles) (simp add: exampleWorld_def)
  have b: "received ''c1'' (snd (broadcastGameStart exampleDeal ''g1'' [''c1'', ''c2''] False
        (Some (exampleState 52 3 0)) (exampleWorld (exampleState 52 3 0)))) =
     received ''c1'' (snd (broadcastGameStart exampleDeal ''g1'' [''c1'', ''c2''] False
        (Some ?other) (exampleWorld (exampleState 52 3 0))))"
    using t [THEN conjunct2, THEN conjunct2, THEN conjunct2, THEN conjunct2, THEN conjunct1,
        THEN mp, OF view, THEN conjunct2]
    by simp
  from a b c show ?thesis by simp
qed

text \<open>
  C6, as amended. \<open>startNewRoundAndSendUpdates\<close>, for a dealer index inside the users, a
  stored game state and a deal with a hand for every user: it first calls
  \<open>startNewGameRound\<close>, with \<open>isDealerChanged\<close> true exactly when the connection id of
  the user at the dealer index differs from the caller's, so that the dealer stays when the
  caller is the dealer; that call's writes to the game state are the only effects so far.
  Then it sends UPDATE_GAME_STATE with the new dealer and wind to every user, then sleeps
  5000 milliseconds, then sends GAME_START with the new hands to every user, and returns
  \<open>undefined\<close>; nothing else happens. When the mutation does not take place, the game
  state being absent, \<open>startNewGameRound\<close> throws the store's conditional-check failure:
  the function propagates it, sends nothing and changes nothing. It never returns the 400
  response, nor any response.
\<close>

theorem startNewRoundAndSendUpdates_order:
  "(d < length usrs \<and> gameStates w gid = Some gs
     \<and> (\<forall>c\<in>set (getConnectionIdsFromUsers usrs).
           \<exists>h\<in>set (dealtHands deal). hand_connectionId h = c) \<longrightarrow>
     (\<exists>g' w1 ws.
        startNewGameRound gid deal (connectionId (usrs ! d) \<noteq> cid) w = (Inr (Some g'), w1)
        \<and> gameStates w1 gid = Some g'
        \<and> dealer g' =
            (if connectionId (usrs ! d) \<noteq> cid then (dealer gs + 1) mod 4 else dealer gs)
        \<and> currentWind g' =
            (if connectionId (usrs ! d) \<noteq> cid \<and> (dealer gs + 1) mod 4 = 0
             then (currentWind gs + 1) mod 4 else currentWind gs)
        \<and> trace w1 = trace w @ Wrote GAME_STATE_TABLE gid # ws
        \<and> set ws \<subseteq> {Wrote GAME_STATE_TABLE gid}
        \<and> startNewRoundAndSendUpdates deal gid cid usrs d w =
            (Inr None,
             w1\<lparr>trace := trace w1
                @ map (\<lambda>c. Sent c
                         \<lparr>action = UPDATE_GAME_STATE,
                          payload = UpdateGameStatePayload (dealer g') (currentWind g'),
                          success = None, error = None\<rparr>)
                    (getConnectionIdsFromUsers usrs)
                @ [Slept 5000]
                @ map (\<lambda>c. Sent c
                         \<lparr>action = GAME_START,
                          payload = GameStartPayload
                            (hand (the (getHandByConnectionId (dealtHands deal) c)))
                            (map (\<lambda>h. \<lparr>self_connectionId = hand_connectionId h,
                                       self_playedTiles = playedTiles h\<rparr>) (dealtHands deal))
                            (dealtIndex deal),
                          success = None, error = None\<rparr>)
                    (getConnectionIdsFromUsers usrs)\<rparr>)))
 \<and> (d < length usrs \<and> gameStates w gid = None \<longrightarrow>
      startNewRoundAndSendUpdates deal gid cid usrs d w = (Inl ConditionalCheckFailed, w))
 \<and> (\<forall>r. fst (startNewRoundAndSendUpdates deal gid cid usrs d w) \<noteq> Inr (Some r))"
proof -
  let ?flag = "connectionId (usrs ! d) \<noteq> cid"
  have main: "\<exists>g' w1 ws.
        startNewGameRound gid deal ?flag w = (Inr (Some g'), w1)
        \<and> gameStates w1 gid = Some g'
        \<and> dealer g' = (if ?flag then (dealer gs + 1) mod 4 else dealer gs)
        \<and> currentWind g' =
            (if ?flag \<and> (dealer gs + 1) mod 4 = 0 then (currentWind gs + 1) mod 4
             else currentWind gs)
        \<and> trace w1 = trace w @ Wrote GAME_STATE_TABLE gid # ws
        \<and> set ws \<subseteq> {Wrote GAME_STATE_TABLE gid}
        \<and> startNewRoundAndSendUpdates deal gid cid usrs d w =
            (Inr None,
             w1\<lparr>trace := trace w1
                @ map (\<lambda>c. Sent c
                         \<lparr>action = UPDATE_GAME_STATE,
                          payload = UpdateGameStatePayload (dealer g') (currentWind g'),
                          success = None, error = None\<rparr>)
                    (getConnectionIdsFromUsers usrs)
                @ [Slept 5000]
                @ map (\<lambda>c. Sent c
                         \<lparr>action = GAME_START,
                          payload = GameStartPayload
                            (hand (the (getHandByConnectionId (dealtHands deal) c)))
                            (map (\<lambda>h. \<lparr>self_connectionId = hand_connectionId h,
                                       self_playedTiles = playedTiles h\<rparr>) (dealtHands deal))
                            (dealtIndex deal),
                          success = None, error = None\<rparr>)
                    (getConnectionIdsFromUsers usrs)\<rparr>)"
    if d: "d < length usrs" and gs: "gameStates w gid = Some gs"
      and cover: "\<forall>c\<in>set (getConnectionIdsFromUsers usrs).
           \<exists>h\<in>set (dealtHands deal). hand_connectionId h = c"
  proof -
    obtain r w1 where res: "startNewGameRound gid deal ?flag w = (r, w1)"
      by (cases "startNewGameRound gid deal ?flag w")
    from res startNewGameRound_hit [OF gs, of deal ?flag]
    obtain g' where r: "r = Inr (Some g')" "gameStates w1 gid = Some g'"
        "dealer g' = (if ?flag then (dealer gs + 1) mod 4 else dealer gs)"
        "currentWind g' =
            (if ?flag \<and> (dealer gs + 1) mod 4 = 0 then (currentWind gs + 1) mod 4
             else currentWind gs)"
        "hands g' = dealtHands deal" "currentIndex g' = dealtIndex deal"
        "\<exists>ws. trace w1 = trace w @ Wrote GAME_STATE_TABLE gid # ws
             \<and> set ws \<subseteq> {Wrote GAME_STATE_TABLE gid}"
      by (auto simp: Let_def split: if_splits)
    have "startNewRoundAndSendUpdates deal gid cid usrs d w =
            (Inr None,
             w1\<lparr>trace := trace w1
                @ map (\<lambda>c. Sent c
                         \<lparr>action = UPDATE_GAME_STATE,
                          payload = UpdateGameStatePayload (dealer g') (currentWind g'),
                          success = None, error = None\<rparr>)
                    (getConnectionIdsFromUsers usrs)
                @ [Slept 5000]
                @ map (\<lambda>c. Sent c
                         \<lparr>action = GAME_START,
                          payload = GameStartPayload
                            (hand (the (getHandByConnectionId (dealtHands deal) c)))
                            (map (\<lambda>h. \<lparr>self_connectionId = hand_connectionId h,
                                       self_playedTiles = playedTiles h\<rparr>) (dealtHands deal))
                            (dealtIndex deal),
                          success = None, error = None\<rparr>)
                    (getConnectionIdsFromUsers usrs)\<rparr>)"
      using d res r(1) r(5) r(6) cover
      by (simp add: startNewRoundAndSendUpdates_def Let_def
            broadcastUpdateGameState_def sendAll_trace sleep_def broadcastGameReset_def
            broadcastGameStart_def sendGameStart_covered createGameStartResponse_def
            createUpdateGameStateResponse_def createWSResponse_def
            allSelfPlayedTilesAtStart_def)
    with res r show ?thesis by blast
  qed
  have absent: "startNewRoundAndSendUpdates deal gid cid usrs d w = (Inl ConditionalCheckFailed, w)"
    if "d < length usrs" "gameStates w gid = None"
    using that by (simp add: startNewRoundAndSendUpdates_def startNewGameRound_absent Let_def)
  have never: "\<forall>r. fst (startNewRoundAndSendUpdates deal gid cid usrs d w) \<noteq> Inr (Some r)"
    using startNewRoundAndSendUpdates_no_response by blast
  from main absent never show ?thesis by blast
qed

theorem startNewRoundAndSendUpdates_order_witness:
  "(\<exists>w'. startNewRoundAndSendUpdates exampleDeal ''g1'' ''c1'' exampleUsers 1
            (exampleWorld (exampleState 144 1 2)) = (Inr None, w')
      \<and> trace w' =
          [Wrote GAME_STATE_TABLE ''g1'', Wrote GAME_STATE_TABLE ''g1'',
           Sent ''c1'' \<lparr>action = UPDATE_GAME_STATE, payload = UpdateGameStatePayload 2 1,
                        success = None, error = None\<rparr>,
           Sent ''c2'' \<lparr>action = UPDATE_GAME_STATE, payload = UpdateGameStatePayload 2 1,
                        success = None, error = None\<rparr>,
           Slept 5000,
           Sent ''c1''
             \<lparr>action = GAME_START,
              payload = GameStartPayload [''1_DOT'', ''2_DOT'']
                [\<lparr>self_connectionId = ''c1'', self_playedTiles = [''1_FLOWER'']\<rparr>,
                 \<lparr>self_connectionId = ''c2'', self_playedTiles = []\<rparr>] 52,
              success = None, error = None\<rparr>,
           Sent ''c2''
             \<lparr>action = GAME_START,
              payload = GameStartPayload [''3_BAMBOO'', ''EAST'']
                [\<lparr>self_connectionId = ''c1'', self_playedTiles = [''1_FLOWER'']\<rparr>,
                 \<lparr>self_connectionId = ''c2'', self_playedTiles = []\<rparr>] 52,
              success = None, error = None\<rparr>])
 \<and> startNewRoundAndSendUpdates exampleDeal ''g9'' ''c1'' exampleUsers 1
      (exampleWorld (exampleState 144 1 2)) =
    (Inl ConditionalCheckFailed, exampleWorld (exampleState 144 1 2))"
proof -
  let ?w = "exampleWorld (exampleState 144 1 2)"
  have ids: "getConnectionIdsFromUsers exampleUsers = [''c1'', ''c2'']"
    by (simp add: getConnectionIdsFromUsers_def exampleUsers_def)
  have flag: "connectionId (exampleUsers ! 1) \<noteq> ''c1''"
    by (simp add: exampleUsers_def)
  have len: "(1::nat) < length exampleUsers"
    by (simp add: exampleUsers_def)
  have cover: "\<forall>c\<in>set (getConnectionIdsFromUsers exampleUsers).
       \<exists>h\<in>set (dealtHands exampleDeal). hand_connectionId h = c"
    by (simp add: ids exampleDeal_def exampleHands_def)
  have lookups: "hand (the (getHandByConnectionId exampleHands ''c1'')) = [''1_DOT'', ''2_DOT'']"
    "hand (the (getHandByConnectionId exampleHands ''c2'')) = [''3_BAMBOO'', ''EAST'']"
    by (simp_all add: getHandByConnectionId_def exampleHands_def)
  have piles: "map (\<lambda>h. \<lparr>self_connectionId = hand_connectionId h,
                        self_playedTiles = playedTiles h\<rparr>) exampleHands =
      [\<lparr>self_connectionId = ''c1'', self_playedTiles = [''1_FLOWER'']\<rparr>,
       \<lparr>self_connectionId = ''c2'', self_playedTiles = []\<rparr>]"
    by (simp add: exampleHands_def)
  have deal: "dealtHands exampleDeal = exampleHands" "dealtIndex exampleDeal = 52"
    by (simp_all add: exampleDeal_def)
  have mutation: "trace (snd (startNewGameRound ''g1'' exampleDeal True ?w)) =
      [Wrote GAME_STATE_TABLE ''g1'', Wrote GAME_STATE_TABLE ''g1'']"
    using startNewGameRound_hit [of ?w "''g1''" "exampleState 144 1 2" exampleDeal True,
        OF exampleWorld_stored]
    by (simp add: Let_def exampleState_fields) (simp add: exampleWorld_def)
  note t = startNewRoundAndSendUpdates_order [of 1 exampleUsers ?w "''g1''" "exampleState 144 1 2"
      exampleDeal "''c1''"]
  from t [THEN conjunct1, THEN mp, OF conjI [OF len conjI [OF exampleWorld_stored cover]]]
  obtain g' w1 where r0:
    "startNewGameRound ''g1'' exampleDeal (connectionId (exampleUsers ! 1) \<noteq> ''c1'') ?w =
       (Inr (Some g'), w1)"
    "dealer g' =
       (if connectionId (exampleUsers ! 1) \<noteq> ''c1''
        then (dealer (exampleState 144 1 2) + 1) mod 4 else dealer (exampleState 144 1 2))"
    "currentWind g' =
       (if connectionId (exampleUsers ! 1) \<noteq> ''c1'' \<and> (dealer (exampleState 144 1 2) + 1) mod 4 = 0
        then (currentWind (exampleState 144 1 2) + 1) mod 4
        else currentWind (exampleState 144 1 2))"
    "startNewRoundAndSendUpdates exampleDeal ''g1'' ''c1'' exampleUsers 1 ?w =
       (Inr None,
        w1\<lparr>trace := trace w1
           @ map (\<lambda>c. Sent c
                    \<lparr>action = UPDATE_GAME_STATE,
                     payload = UpdateGameStatePayload (dealer g') (currentWind g'),
                     success = None, error = None\<rparr>)
               (getConnectionIdsFromUsers exampleUsers)
           @ [Slept 5000]
           @ map (\<lambda>c. Sent c
                    \<lparr>action = GAME_START,
                     payload = GameStartPayload
                       (hand (the (getHandByConnectionId (dealtHands exampleDeal) c)))
                       (map (\<lambda>h. \<lparr>self_connectionId = hand_connectionId h,
                                  self_playedTiles = playedTiles h\<rparr>) (dealtHands exampleDeal))
                       (dealtIndex exampleDeal),
                     success = None, error = None\<rparr>)
               (getConnectionIdsFromUsers exampleUsers)\<rparr>)"
    by blast
  note r = r0(1) r0(2) [unfolded exampleState_fields] r0(3) [unfolded exampleState_fields] r0(4)
  have dw: "dealer g' = 2" "currentWind g' = 1"
    using r(2) r(3) flag by simp_all
  have tr: "trace w1 = [Wrote GAME_STATE_TABLE ''g1'', Wrote GAME_STATE_TABLE ''g1'']"
    using mutation r(1) flag by simp
  have a: "\<exists>w'. startNewRoundAndSendUpdates exampleDeal ''g1'' ''c1'' exampleUsers 1 ?w =
            (Inr None, w')
      \<and> trace w' =
          [Wrote GAME_STATE_TABLE ''g1'', Wrote GAME_STATE_TABLE ''g1'',
           Sent ''c1'' \<lparr>action = UPDATE_GAME_STATE, payload = UpdateGameStatePayload 2 1,
                        success = None, error = None\<rparr>,
           Sent ''c2'' \<lparr>action = UPDATE_GAME_STATE, payload = UpdateGameStatePayload 2 1,
                        success = None, error = None\<rparr>,
           Slept 5000,
           Sent ''c1''
             \<lparr>action = GAME_START,
              payload = GameStartPayload [''1_DOT'', ''2_DOT'']
                [\<lparr>self_connectionId = ''c1'', self_playedTiles = [''1_FLOWER'']\<rparr>,
                 \<lparr>self_connectionId = ''c2'', self_playedTiles = []\<rparr>] 52,
              success = None, error = None\<rparr>,
           Sent ''c2''
             \<lparr>action = GAME_START,
              payload = GameStartPayload [''3_BAMBOO'', ''EAST'']
                [\<lparr>self_connectionId = ''c1'', self_playedTiles = [''1_FLOWER'']\<rparr>,
                 \<lparr>self_connectionId = ''c2'', self_playedTiles = []\<rparr>] 52,
              success = None, error = None\<rparr>]"
    unfolding r(4) by (simp add: tr dw ids deal lookups piles)
  have b: "startNewRoundAndSendUpdates exampleDeal ''g9'' ''c1'' exampleUsers 1 ?w =
      (Inl ConditionalCheckFailed, ?w)"
  proof -
    have absent: "gameStates ?w ''g9'' = None"
      by (simp add: exampleWorld_def)
    show ?thesis
      using startNewRoundAndSendUpdates_order [of 1 exampleUsers ?w "''g9''" _ exampleDeal "''c1''",
          THEN conjunct2, THEN conjunct1, THEN mp, OF conjI [OF len absent]]
      by simp
  qed
  from a b show ?thesis by simp
qed

text \<open>
  The claim as it was stated fails where the mutation yields no updated state: for a game
  without a stored state, \<open>startNewRoundAndSendUpdates\<close> throws the conditional-check
  failure and so returns no 400 response.
\<close>

theorem startNewRoundAndSendUpdates_400_counterexample:
  "startNewRoundAndSendUpdates exampleDeal ''g9'' ''c1'' exampleUsers 1
      (exampleWorld (exampleState 144 1 2)) =
    (Inl ConditionalCheckFailed, exampleWorld (exampleState 144 1 2))
 \<and> fst (startNewRoundAndSendUpdates exampleDeal ''g9'' ''c1'' exampleUsers 1
      (exampleWorld (exampleState 144 1 2))) \<noteq>
    Inr (Some (response 400 (Message ''Cannot start new game round'')))"
proof -
  have absent: "gameStates (exampleWorld gs) ''g9'' = None" for gs
    by (simp add: exampleWorld_def)
  have len: "length exampleUsers = 2"
    by (simp add: exampleUsers_def)
  show ?thesis
    by (simp add: startNewRoundAndSendUpdates_def startNewGameRound_absent [OF absent] len
          Let_def)
qed

section \<open>Connections and the creation of a game\<close>

text \<open>
  C10, as amended. \<open>setUsername\<close> succeeds only if a row with that connection id is
  stored and the name is not the empty string; it then stores the name in that row, which
  it returns. For the empty name or an absent row the conditional update is rejected: the
  call throws the store's conditional-check failure, it does not return an absent value,
  and the table is left as it was, with no new row.
\<close>

theorem setUsername_condition:
  "(getUserByConnectionId cid w = Some u \<and> name \<noteq> '''' \<longrightarrow>
      setUsername cid name w =
        (Inr (Some (u\<lparr>username := Some name\<rparr>)),
         w\<lparr>connections :=
             map (\<lambda>x. if connectionId x = cid then x\<lparr>username := Some name\<rparr> else x)
               (connections w),
           trace := trace w @ [Wrote CONNECTIONS_TABLE cid]\<rparr>))
 \<and> (getUserByConnectionId cid w = None \<or> name = '''' \<longrightarrow>
      setUsername cid name w = (Inl ConditionalCheckFailed, w))
 \<and> (setUsername cid name w = (Inr r, w') \<longrightarrow>
      getUserByConnectionId cid w \<noteq> None \<and> name \<noteq> '''' \<and> r \<noteq> None)"
proof -
  have hit: "setUsername cid name w =
        (Inr (Some (u\<lparr>username := Some name\<rparr>)),
         w\<lparr>connections :=
             map (\<lambda>x. if connectionId x = cid then x\<lparr>username := Some name\<rparr> else x)
               (connections w),
           trace := trace w @ [Wrote CONNECTIONS_TABLE cid]\<rparr>)"
    if "getUserByConnectionId cid w = Some u" and "name \<noteq> ''''"
    using that getUser_key [OF that(1)] by (simp add: setUsername_def updateConnection_def)
  have rejected: "setUsername cid name w = (Inl ConditionalCheckFailed, w)"
    if "getUserByConnectionId cid w = None \<or> name = ''''"
    using that by (auto simp: setUsername_def updateConnection_rejected)
  have only: "getUserByConnectionId cid w \<noteq> None \<and> name \<noteq> '''' \<and> r \<noteq> None"
    if a: "setUsername cid name w = (Inr r, w')"
  proof (cases "getUserByConnectionId cid w")
    case None
    then show ?thesis using a by (simp add: setUsername_def updateConnection_def)
  next
    case (Some u)
    then show ?thesis using a
      by (auto simp: setUsername_def updateConnection_def split: if_splits)
  qed
  from hit rejected only show ?thesis by blast
qed

theorem setUsername_condition_witness:
  "setUsername ''c2'' ''bobby'' (exampleWorld (exampleState 52 3 0)) =
     (Inr (Some \<lparr>connectionId = ''c2'', username = Some ''bobby'', user_gameId = None\<rparr>),
      (exampleWorld (exampleState 52 3 0))
        \<lparr>connections :=
           [\<lparr>connectionId = ''c1'', username = Some ''ann'', user_gameId = Some ''g1''\<rparr>,
            \<lparr>connectionId = ''c2'', username = Some ''bobby'', user_gameId = None\<rparr>],
         trace := [Wrote CONNECTIONS_TABLE ''c2'']\<rparr>)
 \<and> setUsername ''c3'' ''carl'' (exampleWorld (exampleState 52 3 0)) =
     (Inl ConditionalCheckFailed, exampleWorld (exampleState 52 3 0))"
  using setUsername_condition [of "''c2''" "exampleWorld (exampleState 52 3 0)"
      "\<lparr>connectionId = ''c2'', username = Some ''bob'', user_gameId = None\<rparr>" "''bobby''"]
    setUsername_condition [of "''c3''" "exampleWorld (exampleState 52 3 0)" _ "''carl''"]
  by (simp add: getUserByConnectionId_def exampleWorld_def exampleUsers_def)

text \<open>
  The claim as it was stated fails: with the empty name for a stored connection,
  \<open>setUsername\<close> throws and so returns no value, absent or not.
\<close>

theorem setUsername_empty_counterexample:
  "setUsername ''c2'' '''' (exampleWorld (exampleState 52 3 0)) =
     (Inl ConditionalCheckFailed, exampleWorld (exampleState 52 3 0))
 \<and> fst (setUsername ''c2'' '''' (exampleWorld (exampleState 52 3 0))) \<noteq> Inr None"
  by (simp add: setUsername_def updateConnection_def getUserByConnectionId_def
        exampleWorld_def exampleUsers_def)

text \<open>
  C9. When the creating connection already has a game reference (the \<open>gameId\<close> attribute
  of its row is set), the handler of CREATE_GAME fails: it answers 400 for a payload
  without a game and 500 otherwise, never 200. On that failure no table changes; in
  particular no game is stored. The only effect is the failure message sent to the caller.
  \<open>setGameIdForUser\<close> for such a connection is rejected and changes nothing.
\<close>

theorem handler_rejects_second_game:
  assumes "getUserByConnectionId cid w = Some u" and "user_gameId u \<noteq> None"
  shows "setGameIdForUser cid gid w = (Inl ConditionalCheckFailed, w)
       \<and> statusCode (fst (handler cid game newGameId w)) = (if game = None then 400 else 500)
       \<and> connections (snd (handler cid game newGameId w)) = connections w
       \<and> games (snd (handler cid game newGameId w)) = games w
       \<and> gameStates (snd (handler cid game newGameId w)) = gameStates w
       \<and> (\<exists>msg. trace (snd (handler cid game newGameId w)) = trace w @ [Sent cid msg]
              \<and> success msg = Some False)"
proof -
  have s: "setGameIdForUser cid gid w = (Inl ConditionalCheckFailed, w)"
    using assms by (simp add: setGameIdForUser_def updateConnection_rejected)
  have c: "createGame cid n t v newGameId w =
      (Inl (Error ''createGame: creator already has a game''), w)" for n t v
    using assms by (simp add: createGame_def)
  show ?thesis
  proof (cases game)
    case None
    then show ?thesis using s
      by (simp add: handler_def handler_try_def send_def response_def
            failedWebSocketResponse_def)
  next
    case (Some g)
    then show ?thesis using s c
      by (simp add: handler_def handler_try_def send_def response_def
            failedWebSocketResponse_def)
  qed
qed

theorem handler_rejects_second_game_witness:
  "statusCode (fst (handler ''c1''
       (Some \<lparr>game_gameId = '''', gameName = ''table'', gameType = ''mahjong'',
              gameVersion = ''hk'', creatorConnectionId = '''', users = []\<rparr>)
       ''g2'' (exampleWorld (exampleState 52 3 0)))) = 500
 \<and> games (snd (handler ''c1''
       (Some \<lparr>game_gameId = '''', gameName = ''table'', gameType = ''mahjong'',
              gameVersion = ''hk'', creatorConnectionId = '''', users = []\<rparr>)
       ''g2'' (exampleWorld (exampleState 52 3 0)))) ''g2'' = None"
  using handler_rejects_second_game [of "''c1''" "exampleWorld (exampleState 52 3 0)"
      "\<lparr>connectionId = ''c1'', username = Some ''ann'', user_gameId = Some ''g1''\<rparr>"
      "''g2''"
      "Some \<lparr>game_gameId = '''', gameName = ''table'', gameType = ''mahjong'',
              gameVersion = ''hk'', creatorConnectionId = '''', users = []\<rparr>" "''g2''"]
  by (simp add: getUserByConnectionId_def exampleWorld_def exampleUsers_def)

end
